theory Spec2Isabelle
  imports Complex_Main
begin

section \<open>JavaScript numbers\<close>

text \<open>
  The scoring engine computes with JavaScript numbers. A number is modelled as an exact
  rational or one of the three special values of IEEE arithmetic, and the operations
  follow the IEEE rules for the special values: a quotient by zero is an infinity (or
  \<open>NaN\<close> for \<open>0 / 0\<close>) and never an exception, \<open>NaN\<close> is contagious, and every
  comparison with \<open>NaN\<close> is false. Two things are abstracted: finite results are exact
  (no rounding to 53 bits, no overflow to an infinity), and the two zeros are one
  (a quotient by zero takes the sign of its numerator). Where the very value of a
  product is at stake, the rounded product of the section on double precision is used.
\<close>

datatype number = Fin rat | PInf | NInf | NaN

instantiation number :: "{plus, minus, uminus, times, inverse, abs, ord}"
begin

fun uminus_number :: "number \<Rightarrow> number" where
  "uminus_number (Fin a) = Fin (- a)"
| "uminus_number PInf = NInf"
| "uminus_number NInf = PInf"
| "uminus_number NaN = NaN"

fun plus_number :: "number \<Rightarrow> number \<Rightarrow> number" where
  "plus_number (Fin a) (Fin b) = Fin (a + b)"
| "plus_number (Fin a) PInf = PInf"
| "plus_number (Fin a) NInf = NInf"
| "plus_number PInf (Fin b) = PInf"
| "plus_number PInf PInf = PInf"
| "plus_number PInf NInf = NaN"
| "plus_number NInf (Fin b) = NInf"
| "plus_number NInf NInf = NInf"
| "plus_number NInf PInf = NaN"
| "plus_number NaN y = NaN"
| "plus_number (Fin a) NaN = NaN"
| "plus_number PInf NaN = NaN"
| "plus_number NInf NaN = NaN"

definition minus_number :: "number \<Rightarrow> number \<Rightarrow> number" where
  "minus_number x y = x + (- y)"

fun times_number :: "number \<Rightarrow> number \<Rightarrow> number" where
  "times_number (Fin a) (Fin b) = Fin (a * b)"
| "times_number (Fin a) PInf = (if 0 < a then PInf else if a < 0 then NInf else NaN)"
| "times_number (Fin a) NInf = (if 0 < a then NInf else if a < 0 then PInf else NaN)"
| "times_number PInf (Fin b) = (if 0 < b then PInf else if b < 0 then NInf else NaN)"
| "times_number NInf (Fin b) = (if 0 < b then NInf else if b < 0 then PInf else NaN)"
| "times_number PInf PInf = PInf"
| "times_number PInf NInf = NInf"
| "times_number NInf PInf = NInf"
| "times_number NInf NInf = PInf"
| "times_number NaN y = NaN"
| "times_number (Fin a) NaN = NaN"
| "times_number PInf NaN = NaN"
| "times_number NInf NaN = NaN"

fun divide_number :: "number \<Rightarrow> number \<Rightarrow> number" where
  "divide_number (Fin a) (Fin b) =
     (if b \<noteq> 0 then Fin (a / b)
      else if 0 < a then PInf else if a < 0 then NInf else NaN)"
| "divide_number (Fin a) PInf = Fin 0"
| "divide_number (Fin a) NInf = Fin 0"
| "divide_number PInf (Fin b) = (if 0 \<le> b then PInf else NInf)"
| "divide_number NInf (Fin b) = (if 0 \<le> b then NInf else PInf)"
| "divide_number PInf PInf = NaN"
| "divide_number PInf NInf = NaN"
| "divide_number NInf PInf = NaN"
| "divide_number NInf NInf = NaN"
| "divide_number NaN y = NaN"
| "divide_number (Fin a) NaN = NaN"
| "divide_number PInf NaN = NaN"
| "divide_number NInf NaN = NaN"

definition inverse_number :: "number \<Rightarrow> number" where
  "inverse_number x = divide (Fin 1) x"

fun abs_number :: "number \<Rightarrow> number" where
  "abs_number (Fin a) = Fin \<bar>a\<bar>"
| "abs_number PInf = PInf"
| "abs_number NInf = PInf"
| "abs_number NaN = NaN"

fun less_number :: "number \<Rightarrow> number \<Rightarrow> bool" where
  "less_number (Fin a) (Fin b) = (a < b)"
| "less_number (Fin a) PInf = True"
| "less_number NInf (Fin b) = True"
| "less_number NInf PInf = True"
| "less_number x y = False"

fun less_eq_number :: "number \<Rightarrow> number \<Rightarrow> bool" where
  "less_eq_number (Fin a) (Fin b) = (a \<le> b)"
| "less_eq_number (Fin a) PInf = True"
| "less_eq_number NInf (Fin b) = True"
| "less_eq_number NInf PInf = True"
| "less_eq_number PInf PInf = True"
| "less_eq_number NInf NInf = True"
| "less_eq_number x y = False"

instance ..

end

text \<open>\<open>===\<close> on numbers: \<open>NaN\<close> is not equal to itself.\<close>

definition strict_eq :: "number \<Rightarrow> number \<Rightarrow> bool" where
  "strict_eq x y = (x \<noteq> NaN \<and> x = y)"

text \<open>\<open>Math.min\<close> and \<open>Math.max\<close> of two arguments: \<open>NaN\<close> if either is.\<close>

definition Math_min :: "number \<Rightarrow> number \<Rightarrow> number" where
  "Math_min x y = (if x = NaN \<or> y = NaN then NaN else if x < y then x else y)"

definition Math_max :: "number \<Rightarrow> number \<Rightarrow> number" where
  "Math_max x y = (if x = NaN \<or> y = NaN then NaN else if x < y then y else x)"

definition isNaN :: "number \<Rightarrow> bool" where
  "isNaN x = (x = NaN)"

definition isFinite :: "number \<Rightarrow> bool" where
  "isFinite x = (case x of Fin a \<Rightarrow> True | _ \<Rightarrow> False)"

text \<open>Truthiness of a number: \<open>0\<close> and \<open>NaN\<close> are falsy.\<close>

definition truthy :: "number \<Rightarrow> bool" where
  "truthy x = (x \<noteq> Fin 0 \<and> x \<noteq> NaN)"


section \<open>Errors and raw values\<close>

text \<open>
  The exceptions of the source are values: \<open>ValidationError\<close> is thrown by
  \<open>validateNumber\<close>, \<open>FetchError\<close> stands for whatever a failed request or a failed
  decoding of its answer throws.
\<close>

datatype error = ValidationError | FetchError

text \<open>
  The \<open>raw\<close> field of an indicator and the \<open>value\<close> of a threshold are handed to
  \<open>parseFloat\<close>. \<open>Num x\<close> is a value that \<open>parseFloat\<close> reads as the number \<open>x\<close>
  (a number, or a string that starts with a numeral); \<open>NotNumeric\<close> is a value it reads
  as \<open>NaN\<close> (a malformed string, \<open>undefined\<close>, \<open>null\<close>).
\<close>

datatype raw_value = Num number | NotNumeric

fun parseFloat :: "raw_value \<Rightarrow> number" where
  "parseFloat (Num x) = x"
| "parseFloat NotNumeric = NaN"

definition validateNumber :: "raw_value \<Rightarrow> error + number" where
  "validateNumber v =
     (let num = parseFloat v in
      if isNaN num \<or> \<not> isFinite num then Inl ValidationError else Inr num)"

definition clamp :: "number \<Rightarrow> number \<Rightarrow> number \<Rightarrow> number" where
  "clamp v lo hi = Math_min (Math_max v lo) hi"

section \<open>Trend analyzer\<close>

text \<open>
  A historical series is the array \<open>historicalData[seriesId]\<close>, newest observation
  first. \<open>historicalData\<close> is the only field of the analyzer.
\<close>

record observation =
  obs_date :: string
  obs_value :: number

type_synonym history = "string \<rightharpoonup> observation list"

text \<open>
  The answer of the backend for one series: an error (request failed, status not ok,
  no \<open>observations\<close> array), or the observations with \<open>parseFloat\<close> already applied to
  each value.
\<close>

type_synonym backend = "string \<Rightarrow> error + observation list"

definition CONFIG_BACKEND_URL :: string where
  "CONFIG_BACKEND_URL = ''http://localhost:3001''"

text \<open>
  \<open>fetchHistoricalData\<close> catches its own errors and answers \<open>null\<close> (here \<open>None\<close>);
  the stored series then stays what it was.
\<close>

definition fetchHistoricalData ::
  "history \<Rightarrow> backend \<Rightarrow> string \<Rightarrow> history \<times> observation list option" where
  "fetchHistoricalData historicalData backend seriesId =
     (if CONFIG_BACKEND_URL = [] then (historicalData, None)
      else case backend seriesId of
             Inl e \<Rightarrow> (historicalData, None)
           | Inr observations \<Rightarrow>
               let stored = filter (\<lambda>obs. \<not> isNaN (obs_value obs)) observations
               in (historicalData(seriesId \<mapsto> stored), Some stored))"

text \<open>
  The regression loop of \<open>calculateTrendDirection\<close>: \<open>i\<close> runs from \<open>0\<close> to \<open>n - 1\<close>,
  \<open>x = i\<close> and \<open>y = data[n - 1 - i].value\<close>.
\<close>

definition regression_sums :: "observation list \<Rightarrow> number \<times> number \<times> number \<times> number" where
  "regression_sums data =
     (let n = length data in
      foldl (\<lambda>(sumX, sumY, sumXY, sumX2) i.
               let x = Fin (of_nat i);
                   y = obs_value (data ! (n - 1 - i))
               in (sumX + x, sumY + y, sumXY + x * y, sumX2 + x * x))
            (Fin 0, Fin 0, Fin 0, Fin 0) [0..<n])"

definition normalizedSlope :: "observation list \<Rightarrow> number" where
  "normalizedSlope data =
     (let n = Fin (of_nat (length data));
          (sumX, sumY, sumXY, sumX2) = regression_sums data;
          slope = (n * sumXY - sumX * sumY) / (n * sumX2 - sumX * sumX);
          avgValue = sumY / n
      in (slope / avgValue) * Fin 100)"

text \<open>
  No operation in the \<open>try\<close> block of \<open>calculateTrendDirection\<close> throws (arithmetic on
  numbers never does), so its \<open>catch\<close> has no branch here. The same holds for
  \<open>calculateVelocity\<close>.
\<close>

definition calculateTrendDirection :: "history \<Rightarrow> string \<Rightarrow> bool \<Rightarrow> int" where
  "calculateTrendDirection historicalData seriesId isInverted =
     (case historicalData seriesId of
        None \<Rightarrow> 0
      | Some data \<Rightarrow>
          if length data < 3 then 0
          else
            let normalized = normalizedSlope data in
            if \<bar>normalized\<bar> < Fin 0.5 then 0
            else if normalized > Fin 0 then (if isInverted then - 1 else 1)
            else (if isInverted then 1 else - 1))"

definition calculateVelocity :: "history \<Rightarrow> string \<Rightarrow> number" where
  "calculateVelocity historicalData seriesId =
     (case historicalData seriesId of
        None \<Rightarrow> Fin 0
      | Some data \<Rightarrow>
          if length data < 2 then Fin 0
          else
            let latest = obs_value (data ! 0);
                oldest = obs_value (data ! (length data - 1));
                months = Fin (of_nat (length data - 1));
                totalChange = ((latest - oldest) / oldest) * Fin 100;
                velocity = totalChange / months
            in velocity)"

text \<open>
  The table \<open>directionMultipliers\<close> is indexed by \<open>direction.toString()\<close>; a key other
  than the three gives \<open>undefined\<close>, which arithmetic reads as \<open>NaN\<close>.
\<close>

definition directionMultipliers :: "int \<Rightarrow> number" where
  "directionMultipliers direction =
     (if direction = - 1 then Fin 1.3
      else if direction = 0 then Fin 1.0
      else if direction = 1 then Fin 0.7
      else NaN)"

definition getTrendMultiplier :: "history \<Rightarrow> string \<Rightarrow> bool \<Rightarrow> number" where
  "getTrendMultiplier historicalData seriesId isInverted =
     (let direction = calculateTrendDirection historicalData seriesId isInverted;
          velocity = \<bar>calculateVelocity historicalData seriesId\<bar>;
          multiplier = directionMultipliers direction
      in if velocity > Fin 2.0 then
           (if direction = - 1 then Math_min (multiplier * Fin 1.2) (Fin 1.5)
            else if direction = 1 then Math_max (multiplier * Fin 0.8) (Fin 0.5)
            else multiplier)
         else multiplier)"


section \<open>Snapshot and configuration\<close>

record indicator =
  raw :: raw_value

text \<open>
  The snapshot is an object from series identifiers to indicators: an association list,
  read with \<open>map_of\<close>; \<open>Object.keys\<close> is the list of its keys.
\<close>

type_synonym snapshot = "(string \<times> indicator) list"

text \<open>\<open>analyzeAllTrends\<close>: the set of indicators for which higher is worse.\<close>

definition invertedIndicators :: "string set" where
  "invertedIndicators =
     {''UNRATE'', ''BAA10Y'', ''VIXCLS'', ''GFDGDPA188S'', ''DeficitGDP'', ''A091RC1Q027SBEA''}"

text \<open>
  \<open>Promise.allSettled\<close> over the fetches: each fetch stores its series or leaves the
  store alone. Then one multiplier for every series that has a stored history.
\<close>

definition analyzeAllTrends ::
  "history \<Rightarrow> backend \<Rightarrow> snapshot \<Rightarrow> history \<times> (string \<rightharpoonup> number)" where
  "analyzeAllTrends historicalData backend indicators =
     (let seriesIds = filter (\<lambda>id. id \<noteq> ''DXY'') (map fst indicators);
          fetched = foldl (\<lambda>h id. fst (fetchHistoricalData h backend id)) historicalData seriesIds;
          trendMultipliers =
            foldl (\<lambda>tm seriesId.
                     if fetched seriesId \<noteq> None then
                       let isInverted = (seriesId \<in> invertedIndicators)
                       in tm(seriesId \<mapsto> getTrendMultiplier fetched seriesId isInverted)
                     else tm)
                  Map.empty seriesIds
      in (fetched, trendMultipliers))"

datatype event = recession | depression | reserve | default | devaluation

definition events :: "event list" where
  "events = [recession, depression, reserve, default, devaluation]"

fun BASE_PROBABILITIES :: "event \<Rightarrow> number" where
  "BASE_PROBABILITIES recession = Fin 0.15"
| "BASE_PROBABILITIES depression = Fin 0.03"
| "BASE_PROBABILITIES reserve = Fin 0.05"
| "BASE_PROBABILITIES default = Fin 0.01"
| "BASE_PROBABILITIES devaluation = Fin 0.20"

record threshold =
  thr_value :: raw_value
  thr_factor :: number
  thr_reason :: string

text \<open>\<open>ECONOMIC_THRESHOLDS\<close>, one constant for each entry \<open>event.rule\<close>.\<close>

definition recession_deficitGDP :: threshold where
  "recession_deficitGDP =
     \<lparr>thr_value = Num (Fin 5), thr_factor = Fin 1.8, thr_reason = ''Deficit > 5% GDP''\<rparr>"

definition recession_creditSpreads :: threshold where
  "recession_creditSpreads =
     \<lparr>thr_value = Num (Fin 4), thr_factor = Fin 2.0, thr_reason = ''Credit spreads > 400bps''\<rparr>"

definition recession_yieldCurve :: threshold where
  "recession_yieldCurve =
     \<lparr>thr_value = Num (Fin 0), thr_factor = Fin 1.7, thr_reason = ''Yield curve inverted''\<rparr>"

definition depression_fedFunds :: threshold where
  "depression_fedFunds =
     \<lparr>thr_value = Num (Fin 0.5), thr_factor = Fin 3.0, thr_reason = ''Fed Funds < 0.5%''\<rparr>"

definition depression_debtGDP :: threshold where
  "depression_debtGDP =
     \<lparr>thr_value = Num (Fin 150), thr_factor = Fin 2.0, thr_reason = ''Debt/GDP > 150%''\<rparr>"

definition depression_mbToM2 :: threshold where
  "depression_mbToM2 =
     \<lparr>thr_value = Num (Fin 0.3), thr_factor = Fin 1.5, thr_reason = ''Extreme QE conditions''\<rparr>"

definition reserve_dxy :: threshold where
  "reserve_dxy =
     \<lparr>thr_value = Num (Fin 90), thr_factor = Fin 1.5, thr_reason = ''Dollar weakness''\<rparr>"

definition default_deficitGDP :: threshold where
  "default_deficitGDP =
     \<lparr>thr_value = Num (Fin 7), thr_factor = Fin 3.0, thr_reason = ''Deficit > 7% GDP''\<rparr>"

definition default_interestPayments :: threshold where
  "default_interestPayments =
     \<lparr>thr_value = Num (Fin 4), thr_factor = Fin 2.5,
      thr_reason = ''Interest payments > 4% GDP''\<rparr>"

definition default_rateSpread :: threshold where
  "default_rateSpread =
     \<lparr>thr_value = Num (Fin 2), thr_factor = Fin 1.5, thr_reason = ''Rising long-term rates''\<rparr>"

definition devaluation_dxy :: threshold where
  "devaluation_dxy =
     \<lparr>thr_value = Num (Fin 100), thr_factor = Fin 1.5, thr_reason = ''DXY < 100''\<rparr>"

definition devaluation_deficitGDP :: threshold where
  "devaluation_deficitGDP =
     \<lparr>thr_value = Num (Fin 7), thr_factor = Fin 1.8,
      thr_reason = ''High deficit monetization risk''\<rparr>"

definition CORRELATION_DISCOUNT :: "nat \<rightharpoonup> number" where
  "CORRELATION_DISCOUNT = [2 \<mapsto> Fin 0.7, 3 \<mapsto> Fin 0.5]"

text \<open>
  Reading a property that may be missing: \<open>undefined\<close> is falsy, and arithmetic reads
  it as \<open>NaN\<close>.
\<close>

definition truthy_property :: "number option \<Rightarrow> bool" where
  "truthy_property p = (case p of None \<Rightarrow> False | Some x \<Rightarrow> truthy x)"

definition to_number :: "number option \<Rightarrow> number" where
  "to_number p = (case p of None \<Rightarrow> NaN | Some x \<Rightarrow> x)"

section \<open>Probability calculator\<close>

text \<open>
  An entry of \<open>updateFactors[event]\<close>. The recession rules write all four fields, the
  rules of the other events only \<open>factor\<close> and \<open>reason\<close>.
\<close>

record factor_entry =
  factor :: number
  baseFactor :: "number option"
  reason :: string
  trendAdjusted :: "bool option"

record calculator =
  currentProbabilities :: "event \<rightharpoonup> number"
  updateFactors :: "event \<Rightarrow> factor_entry list"
  trendAnalyzer :: history
  trendMultipliers :: "string \<rightharpoonup> number"
  useTrendAnalysis :: bool

definition resetFactors :: "calculator \<Rightarrow> calculator" where
  "resetFactors st = st\<lparr>updateFactors := (\<lambda>event. [])\<rparr>"

definition constructor :: calculator where
  "constructor =
     \<lparr>currentProbabilities = (\<lambda>event. Some (BASE_PROBABILITIES event)),
      updateFactors = (\<lambda>event. []),
      trendAnalyzer = Map.empty,
      trendMultipliers = Map.empty,
      useTrendAnalysis = True\<rparr>"

definition push :: "calculator \<Rightarrow> event \<Rightarrow> factor_entry \<Rightarrow> calculator" where
  "push st event entry =
     st\<lparr>updateFactors := (updateFactors st)(event := updateFactors st event @ [entry])\<rparr>"

text \<open>
  \<open>checkThreshold\<close>: a \<open>ValidationError\<close> of either \<open>validateNumber\<close> is caught and
  answered with \<open>false\<close>, as is an unknown operator.
\<close>

definition checkThreshold :: "raw_value \<Rightarrow> raw_value \<Rightarrow> string \<Rightarrow> bool" where
  "checkThreshold v thr operator =
     (case validateNumber v of
        Inl e \<Rightarrow> False
      | Inr numValue \<Rightarrow>
          (case validateNumber thr of
             Inl e \<Rightarrow> False
           | Inr numThreshold \<Rightarrow>
               if operator = ''>'' then numValue > numThreshold
               else if operator = ''<'' then numValue < numThreshold
               else if operator = ''>='' then numValue \<ge> numThreshold
               else if operator = ''<='' then numValue \<le> numThreshold
               else if operator = ''=='' then strict_eq numValue numThreshold
               else False))"

definition applyTrendAdjustment :: "calculator \<Rightarrow> number \<Rightarrow> string \<Rightarrow> number" where
  "applyTrendAdjustment st base seriesId =
     (if \<not> useTrendAnalysis st \<or> \<not> truthy_property (trendMultipliers st seriesId) then base
      else
        let trendMultiplier = to_number (trendMultipliers st seriesId);
            adjustedFactor = base * trendMultiplier
        in adjustedFactor)"

text \<open>The entry pushed by a recession rule, and the one pushed by every other rule.\<close>

definition adjusted_entry :: "calculator \<Rightarrow> threshold \<Rightarrow> string \<Rightarrow> factor_entry" where
  "adjusted_entry st thr seriesId =
     (let base = thr_factor thr;
          trendFactor = applyTrendAdjustment st base seriesId
      in \<lparr>factor = trendFactor, baseFactor = Some base, reason = thr_reason thr,
          trendAdjusted = Some (\<not> strict_eq trendFactor base)\<rparr>)"

definition plain_entry :: "threshold \<Rightarrow> factor_entry" where
  "plain_entry thr =
     \<lparr>factor = thr_factor thr, baseFactor = None, reason = thr_reason thr,
      trendAdjusted = None\<rparr>"

text \<open>
  \<open>indicators.X && this.checkThreshold(indicators.X.raw, value, op)\<close>: a missing
  indicator is falsy and the check is not made.
\<close>

definition present_and_over :: "snapshot \<Rightarrow> string \<Rightarrow> threshold \<Rightarrow> string \<Rightarrow> bool" where
  "present_and_over indicators seriesId thr operator =
     (case map_of indicators seriesId of
        None \<Rightarrow> False
      | Some ind \<Rightarrow> checkThreshold (raw ind) (thr_value thr) operator)"

definition calculateRecessionFactors :: "calculator \<Rightarrow> snapshot \<Rightarrow> calculator" where
  "calculateRecessionFactors st indicators =
     (let st1 = (if present_and_over indicators ''DeficitGDP'' recession_deficitGDP ''>''
                 then push st recession (adjusted_entry st recession_deficitGDP ''DeficitGDP'')
                 else st);
          st2 = (if present_and_over indicators ''BAA10Y'' recession_creditSpreads ''>''
                 then push st1 recession (adjusted_entry st1 recession_creditSpreads ''BAA10Y'')
                 else st1);
          st3 = (if present_and_over indicators ''T10Y2Y'' recession_yieldCurve ''<''
                 then push st2 recession (adjusted_entry st2 recession_yieldCurve ''T10Y2Y'')
                 else st2)
      in st3)"

text \<open>
  The composite rules compute a scalar from two indicators inside a \<open>try\<close>; a
  \<open>ValidationError\<close> of either operand is caught there and no entry is pushed.
\<close>

definition calculateDepressionFactors :: "calculator \<Rightarrow> snapshot \<Rightarrow> calculator" where
  "calculateDepressionFactors st indicators =
     (let st1 = (if present_and_over indicators ''DFF'' depression_fedFunds ''<''
                 then push st depression (plain_entry depression_fedFunds) else st);
          st2 = (if present_and_over indicators ''GFDGDPA188S'' depression_debtGDP ''>''
                 then push st1 depression (plain_entry depression_debtGDP) else st1);
          st3 = (case (map_of indicators ''BOGMBASE'', map_of indicators ''M2SL'') of
                   (Some base, Some m2) \<Rightarrow>
                     (case validateNumber (raw base) of
                        Inl e \<Rightarrow> st2
                      | Inr b \<Rightarrow>
                          (case validateNumber (raw m2) of
                             Inl e \<Rightarrow> st2
                           | Inr m \<Rightarrow>
                               let mbToM2 = b / m in
                               if checkThreshold (Num mbToM2) (thr_value depression_mbToM2) ''>''
                               then push st2 depression (plain_entry depression_mbToM2)
                               else st2))
                 | _ \<Rightarrow> st2)
      in st3)"

definition calculateReserveFactors :: "calculator \<Rightarrow> snapshot \<Rightarrow> calculator" where
  "calculateReserveFactors st indicators =
     (if present_and_over indicators ''DXY'' reserve_dxy ''<''
      then push st reserve (plain_entry reserve_dxy) else st)"

definition calculateDefaultFactors :: "calculator \<Rightarrow> snapshot \<Rightarrow> calculator" where
  "calculateDefaultFactors st indicators =
     (let st1 = (if present_and_over indicators ''DeficitGDP'' default_deficitGDP ''>''
                 then push st default (plain_entry default_deficitGDP) else st);
          st2 = (if present_and_over indicators ''A091RC1Q027SBEA'' default_interestPayments ''>''
                 then push st1 default (plain_entry default_interestPayments) else st1);
          st3 = (case (map_of indicators ''DGS10'', map_of indicators ''DFF'') of
                   (Some long, Some short) \<Rightarrow>
                     (case validateNumber (raw long) of
                        Inl e \<Rightarrow> st2
                      | Inr l \<Rightarrow>
                          (case validateNumber (raw short) of
                             Inl e \<Rightarrow> st2
                           | Inr s \<Rightarrow>
                               let spread = l - s in
                               if checkThreshold (Num spread) (thr_value default_rateSpread) ''>''
                               then push st2 default (plain_entry default_rateSpread)
                               else st2))
                 | _ \<Rightarrow> st2)
      in st3)"

definition calculateDevaluationFactors :: "calculator \<Rightarrow> snapshot \<Rightarrow> calculator" where
  "calculateDevaluationFactors st indicators =
     (let st1 = (if present_and_over indicators ''DXY'' devaluation_dxy ''<''
                 then push st devaluation (plain_entry devaluation_dxy) else st);
          st2 = (if present_and_over indicators ''DeficitGDP'' devaluation_deficitGDP ''>''
                 then push st1 devaluation (plain_entry devaluation_deficitGDP) else st1)
      in st2)"

text \<open>
  \<open>calculateAllProbabilities\<close>: the body of the loop for one event, then the loop over
  the keys of \<open>currentProbabilities\<close>.
\<close>

definition combinedProduct :: "factor_entry list \<Rightarrow> number" where
  "combinedProduct factors = foldl (\<lambda>acc f. acc * factor f) (Fin 1) factors"

definition probabilityOf :: "event \<Rightarrow> factor_entry list \<Rightarrow> number" where
  "probabilityOf event factors =
     (let baseProbability = BASE_PROBABILITIES event in
      if length factors > 0 then
        let combinedFactor = combinedProduct factors;
            discounted =
              (if length factors = 2 \<and> truthy_property (CORRELATION_DISCOUNT 2)
               then combinedFactor * to_number (CORRELATION_DISCOUNT 2)
               else if length factors \<ge> 3 \<and> truthy_property (CORRELATION_DISCOUNT 3)
               then combinedFactor * to_number (CORRELATION_DISCOUNT 3)
               else combinedFactor)
        in clamp (baseProbability * discounted) (Fin 0) (Fin 1.0)
      else baseProbability)"

definition calculateAllProbabilities :: "calculator \<Rightarrow> calculator" where
  "calculateAllProbabilities st =
     foldl (\<lambda>s event.
              s\<lparr>currentProbabilities :=
                  (currentProbabilities s)(event \<mapsto> probabilityOf event (updateFactors s event))\<rparr>)
           st (filter (\<lambda>event. currentProbabilities st event \<noteq> None) events)"

text \<open>
  \<open>updateProbabilities\<close>. The environment of a cycle is what awaiting
  \<open>analyzeAllTrends\<close> meets: \<open>Inl e\<close> when the call fails as a whole with \<open>e\<close>,
  \<open>Inr backend\<close> when it runs against \<open>backend\<close>. In the steps after the trend analysis
  every throwing call sits in a \<open>try\<close> of its own, so the outer \<open>catch\<close> has no branch.
\<close>

definition evaluateThresholds :: "calculator \<Rightarrow> snapshot \<Rightarrow> calculator" where
  "evaluateThresholds st indicators =
     (let st1 = calculateRecessionFactors st indicators;
          st2 = calculateDepressionFactors st1 indicators;
          st3 = calculateReserveFactors st2 indicators;
          st4 = calculateDefaultFactors st3 indicators;
          st5 = calculateDevaluationFactors st4 indicators
      in st5)"

definition updateProbabilities ::
  "calculator \<Rightarrow> error + backend \<Rightarrow> snapshot \<Rightarrow> calculator \<times> (event \<rightharpoonup> number)" where
  "updateProbabilities st env indicators =
     (let st0 = resetFactors st;
          st1 = (if useTrendAnalysis st0 then
                   (case env of
                      Inr backend \<Rightarrow>
                        let (fetched, multipliers) =
                              analyzeAllTrends (trendAnalyzer st0) backend indicators
                        in st0\<lparr>trendAnalyzer := fetched, trendMultipliers := multipliers\<rparr>
                    | Inl e \<Rightarrow> st0\<lparr>trendMultipliers := Map.empty\<rparr>)
                 else st0);
          st2 = evaluateThresholds st1 indicators;
          st3 = calculateAllProbabilities st2
      in (st3, currentProbabilities st3))"

section \<open>Concrete inputs\<close>

text \<open>A series with the given values, newest first; the dates are not read by any function.\<close>

definition series_of :: "rat list \<Rightarrow> observation list" where
  "series_of xs = map (\<lambda>x. \<lparr>obs_date = [], obs_value = Fin x\<rparr>) xs"

section \<open>The aggregation rule as the specification words it\<close>

text \<open>
  The correlation discount by number of triggered factors (two: 0.7, three or more: 0.5,
  none otherwise), and the final probability \<open>clamp (basePrior * C, 0, 1)\<close> where \<open>C\<close>
  is the product of the effective factors times the discount.
\<close>

definition spec_discount :: "nat \<Rightarrow> rat" where
  "spec_discount k = (if k = 2 then 0.7 else if 3 \<le> k then 0.5 else 1)"

definition spec_probability :: "rat \<Rightarrow> rat list \<Rightarrow> rat" where
  "spec_probability basePrior effectiveFactors =
     min (max (basePrior * (prod_list effectiveFactors
                            * spec_discount (length effectiveFactors))) 0) 1"

text \<open>
  A cycle in which the yield curve is inverted and its history moves further below zero:
  the snapshot with the deficit rule alone, and with the yield-curve rule as well.
\<close>

definition yield_backend :: backend where
  "yield_backend seriesId =
     (if seriesId = ''T10Y2Y'' then Inr (series_of [- 1, - 0.5, - 0.1]) else Inl FetchError)"

definition deficit_snapshot :: snapshot where
  "deficit_snapshot = [(''DeficitGDP'', \<lparr>raw = Num (Fin 6)\<rparr>)]"

definition deficit_yield_snapshot :: snapshot where
  "deficit_yield_snapshot =
     [(''DeficitGDP'', \<lparr>raw = Num (Fin 6)\<rparr>), (''T10Y2Y'', \<lparr>raw = Num (Fin (- 1))\<rparr>)]"

text \<open>A cycle with deficit and credit spreads over their thresholds.\<close>

definition deficit_spread_snapshot :: snapshot where
  "deficit_spread_snapshot =
     [(''DeficitGDP'', \<lparr>raw = Num (Fin 6)\<rparr>), (''BAA10Y'', \<lparr>raw = Num (Fin 5)\<rparr>)]"

text \<open>
  A cycle in which the federal funds rate is under its threshold and has been falling
  fast, so that the analyzer has a multiplier above one for it.
\<close>

definition funds_backend :: backend where
  "funds_backend seriesId =
     (if seriesId = ''DFF'' then Inr (series_of [0.25, 0.5, 1]) else Inl FetchError)"

definition funds_snapshot :: snapshot where
  "funds_snapshot = [(''DFF'', \<lparr>raw = Num (Fin 0.25)\<rparr>)]"

section \<open>The rule table\<close>

text \<open>
  The twelve rules of the five \<open>calculate...Factors\<close> functions: the event, the
  indicators that the rule reads from the snapshot, and its entry of
  \<open>ECONOMIC_THRESHOLDS\<close>. An indicator is unavailable to a rule when the snapshot has
  no such key or when \<open>parseFloat\<close> reads its \<open>raw\<close> as \<open>NaN\<close>.
\<close>

definition rules :: "(event \<times> string list \<times> threshold) list" where
  "rules =
     [(recession, [''DeficitGDP''], recession_deficitGDP),
      (recession, [''BAA10Y''], recession_creditSpreads),
      (recession, [''T10Y2Y''], recession_yieldCurve),
      (depression, [''DFF''], depression_fedFunds),
      (depression, [''GFDGDPA188S''], depression_debtGDP),
      (depression, [''BOGMBASE'', ''M2SL''], depression_mbToM2),
      (reserve, [''DXY''], reserve_dxy),
      (default, [''DeficitGDP''], default_deficitGDP),
      (default, [''A091RC1Q027SBEA''], default_interestPayments),
      (default, [''DGS10'', ''DFF''], default_rateSpread),
      (devaluation, [''DXY''], devaluation_dxy),
      (devaluation, [''DeficitGDP''], devaluation_deficitGDP)]"

definition unavailable :: "snapshot \<Rightarrow> string \<Rightarrow> bool" where
  "unavailable indicators seriesId =
     (case map_of indicators seriesId of
        None \<Rightarrow> True
      | Some ind \<Rightarrow> isNaN (parseFloat (raw ind)))"

text \<open>A snapshot whose deficit entry is a malformed string.\<close>

definition malformed_snapshot :: snapshot where
  "malformed_snapshot =
     [(''DeficitGDP'', \<lparr>raw = NotNumeric\<rparr>), (''BAA10Y'', \<lparr>raw = Num (Fin 5)\<rparr>)]"

section \<open>Auxiliary notions\<close>

text \<open>The reasons of the entries that an event has collected.\<close>

definition reasons :: "calculator \<Rightarrow> event \<Rightarrow> string set" where
  "reasons st e = reason ` set (updateFactors st e)"

text \<open>Every collected factor is a number other than \<open>0\<close> and \<open>NaN\<close>.\<close>

definition factors_truthy :: "calculator \<Rightarrow> bool" where
  "factors_truthy st = (\<forall>e. \<forall>f \<in> set (updateFactors st e). truthy (factor f))"

text \<open>The trend adjustment leaves every finite base factor as it is.\<close>

definition trend_neutral :: "calculator \<Rightarrow> bool" where
  "trend_neutral st = (\<forall>b s. applyTrendAdjustment st (Fin b) s = Fin b)"

section \<open>Least squares as the specification words it\<close>

text \<open>
  The values of a finite series in time order (oldest first), their mean, and the
  ordinary least-squares slope of the values against the time index \<open>x = 0, ..., n - 1\<close>:
  the sum of the products of the deviations from the two means over the sum of the
  squared deviations of the time index.
\<close>

definition fin_value :: "number \<Rightarrow> rat" where
  "fin_value x = (case x of Fin a \<Rightarrow> a | _ \<Rightarrow> 0)"

definition finite_series :: "observation list \<Rightarrow> bool" where
  "finite_series data = list_all (\<lambda>obs. isFinite (obs_value obs)) data"

definition oldest_first :: "observation list \<Rightarrow> rat list" where
  "oldest_first data = rev (map (\<lambda>obs. fin_value (obs_value obs)) data)"

definition mean :: "rat list \<Rightarrow> rat" where
  "mean ys = sum_list ys / of_nat (length ys)"

definition time_mean :: "nat \<Rightarrow> rat" where
  "time_mean n = (\<Sum>i\<leftarrow>[0..<n]. of_nat i) / of_nat n"

definition ols_slope :: "rat list \<Rightarrow> rat" where
  "ols_slope ys =
     (let n = length ys; xm = time_mean n; ym = mean ys in
      (\<Sum>i\<leftarrow>[0..<n]. (of_nat i - xm) * (ys ! i - ym))
        / (\<Sum>i\<leftarrow>[0..<n]. (of_nat i - xm) * (of_nat i - xm)))"

text \<open>The sign of a number; \<open>NaN\<close> has none (here 0).\<close>

fun sign_of :: "number \<Rightarrow> int" where
  "sign_of (Fin a) = (if 0 < a then 1 else if a < 0 then - 1 else 0)"
| "sign_of PInf = 1"
| "sign_of NInf = - 1"
| "sign_of NaN = 0"

section \<open>A collaborator that cannot be reached\<close>




section \<open>Rounding to double precision\<close>

text \<open>
  The functions above compute with exact rationals. Where the very value of a product
  matters, the product is rounded as IEEE binary64 arithmetic rounds it: to the nearest
  number with a significand of 53 bits, a tie going to the even significand. The
  exponent is not bounded here (no overflow to an infinity, no subnormal numbers).
  \<open>double_unit\<close> searches the unit in the last place of \<open>a\<close>, doubling or halving a
  candidate; \<open>lit\<close> is the number that a decimal literal of the source denotes.
\<close>

definition round_half_even :: "rat \<Rightarrow> int" where
  "round_half_even x =
     (let f = \<lfloor>x\<rfloor>; d = x - of_int f in
      if d < 1 / 2 then f
      else if 1 / 2 < d then f + 1
      else if even f then f else f + 1)"

fun double_unit :: "nat \<Rightarrow> rat \<Rightarrow> rat \<Rightarrow> rat" where
  "double_unit 0 a u = u"
| "double_unit (Suc k) a u =
     (if 2 ^ 53 \<le> a / u then double_unit k a (2 * u)
      else if a / u < 2 ^ 52 then double_unit k a (u / 2)
      else u)"

definition round_to_double :: "rat \<Rightarrow> rat" where
  "round_to_double x =
     (if x = 0 then 0
      else let a = \<bar>x\<bar>; u = double_unit 2200 a (1 / 2 ^ 52)
           in sgn x * (of_int (round_half_even (a / u)) * u))"

definition lit :: "rat \<Rightarrow> number" where
  "lit x = Fin (round_to_double x)"

definition double_times :: "number \<Rightarrow> number \<Rightarrow> number" where
  "double_times x y = (case x * y of Fin p \<Rightarrow> Fin (round_to_double p) | z \<Rightarrow> z)"

text \<open>
  \<open>getTrendMultiplier\<close> with its literals and its two products in double precision.
  Direction and velocity are those of the functions above; the multiplier depends on
  them only through the direction being \<open>-1\<close>, \<open>0\<close> or \<open>1\<close> and through the test of
  the velocity against 2.0.
\<close>

definition directionMultipliers_double :: "int \<Rightarrow> number" where
  "directionMultipliers_double direction =
     (if direction = - 1 then lit 1.3
      else if direction = 0 then lit 1.0
      else if direction = 1 then lit 0.7
      else NaN)"

definition getTrendMultiplier_double :: "history \<Rightarrow> string \<Rightarrow> bool \<Rightarrow> number" where
  "getTrendMultiplier_double historicalData seriesId isInverted =
     (let direction = calculateTrendDirection historicalData seriesId isInverted;
          velocity = \<bar>calculateVelocity historicalData seriesId\<bar>;
          multiplier = directionMultipliers_double direction
      in if velocity > lit 2.0 then
           (if direction = - 1 then Math_min (double_times multiplier (lit 1.2)) (lit 1.5)
            else if direction = 1 then Math_max (double_times multiplier (lit 0.8)) (lit 0.5)
            else multiplier)
         else multiplier)"

section \<open>The trend multiplier\<close>

lemma calculateTrendDirection_range:
  "calculateTrendDirection h s iv \<in> {- 1, 0, 1}"
  by (simp add: calculateTrendDirection_def Let_def split: option.split)

lemma getTrendMultiplier_cases:
  "getTrendMultiplier h s iv =
     (let d = calculateTrendDirection h s iv; v = \<bar>calculateVelocity h s\<bar> in
      if d = 0 then Fin 1.0
      else if d = - 1 then (if v > Fin 2.0 then Fin 1.5 else Fin 1.3)
      else (if v > Fin 2.0 then Fin 0.56 else Fin 0.7))"
  using calculateTrendDirection_range [of h s iv]
  by (auto simp add: getTrendMultiplier_def Let_def directionMultipliers_def
        Math_min_def Math_max_def)

lemma getTrendMultiplier_values:
  "getTrendMultiplier h s iv \<in> {Fin 0.56, Fin 0.7, Fin 1.0, Fin 1.3, Fin 1.5}"
  by (simp add: getTrendMultiplier_cases Let_def)

text \<open>
  C5. The multiplier is 1.3 for direction \<open>-1\<close>, 1.0 for direction \<open>0\<close> and 0.7 for
  direction \<open>+1\<close>. When the absolute velocity exceeds 2.0, direction \<open>-1\<close> gives
  \<open>min (1.3 * 1.2, 1.5)\<close>, direction \<open>+1\<close> gives \<open>max (0.7 * 0.8, 0.5)\<close>, and
  direction \<open>0\<close> still gives 1.0. The direction is always one of the three.
\<close>

theorem trend_multiplier_by_direction:
  "calculateTrendDirection h s iv \<in> {- 1, 0, 1} \<and>
   (calculateTrendDirection h s iv = 0 \<longrightarrow> getTrendMultiplier h s iv = Fin 1.0) \<and>
   (calculateTrendDirection h s iv = - 1 \<and> \<not> \<bar>calculateVelocity h s\<bar> > Fin 2.0 \<longrightarrow>
      getTrendMultiplier h s iv = Fin 1.3) \<and>
   (calculateTrendDirection h s iv = 1 \<and> \<not> \<bar>calculateVelocity h s\<bar> > Fin 2.0 \<longrightarrow>
      getTrendMultiplier h s iv = Fin 0.7) \<and>
   (calculateTrendDirection h s iv = - 1 \<and> \<bar>calculateVelocity h s\<bar> > Fin 2.0 \<longrightarrow>
      getTrendMultiplier h s iv = Math_min (Fin 1.3 * Fin 1.2) (Fin 1.5)) \<and>
   (calculateTrendDirection h s iv = 1 \<and> \<bar>calculateVelocity h s\<bar> > Fin 2.0 \<longrightarrow>
      getTrendMultiplier h s iv = Math_max (Fin 0.7 * Fin 0.8) (Fin 0.5))"
  using calculateTrendDirection_range [of h s iv]
  by (simp add: getTrendMultiplier_cases Let_def Math_min_def Math_max_def)

theorem trend_multiplier_by_direction_witness:
  "calculateTrendDirection [''X'' \<mapsto> series_of [3, 2, 1]] ''X'' True = - 1 \<and>
   \<bar>calculateVelocity [''X'' \<mapsto> series_of [3, 2, 1]] ''X''\<bar> > Fin 2.0 \<and>
   getTrendMultiplier [''X'' \<mapsto> series_of [3, 2, 1]] ''X'' True
     = Math_min (Fin 1.3 * Fin 1.2) (Fin 1.5)"
proof -
  have d: "calculateTrendDirection [''X'' \<mapsto> series_of [3, 2, 1]] ''X'' True = - 1"
    by code_simp
  have v: "\<bar>calculateVelocity [''X'' \<mapsto> series_of [3, 2, 1]] ''X''\<bar> > Fin 2.0"
    by code_simp
  from trend_multiplier_by_direction [of "[''X'' \<mapsto> series_of [3, 2, 1]]" "''X''" True] d v
  show ?thesis by simp
qed

section \<open>The values of the trend multiplier\<close>

text \<open>The argument of \<open>lit\<close> is a literal of the source and is kept as written.\<close>

lemma lit_cong [cong]: "lit x = lit x"
  by (rule refl)

lemma rounded_products:
  "double_times (lit 0.7) (lit 0.8) = Fin (5044031582654955 / 9007199254740992)"
  "lit 0.56 = Fin (5044031582654956 / 9007199254740992)"
  "Math_max (double_times (lit 0.7) (lit 0.8)) (lit 0.5) = double_times (lit 0.7) (lit 0.8)"
  "Math_min (double_times (lit 1.3) (lit 1.2)) (lit 1.5) = lit 1.5"
  by code_simp+

lemma rounded_literals:
  "lit 0.5 = Fin (1 / 2)" "lit 1.0 = Fin 1" "lit 1.5 = Fin (3 / 2)"
  "lit 0.7 = Fin (6305039478318694 / 9007199254740992)"
  "lit 1.3 = Fin (5854679515581645 / 4503599627370496)"
  by code_simp+

lemma rounded_values_above_floor:
  "double_times (lit 0.7) (lit 0.8) \<noteq> lit 0.5" "lit 0.7 \<noteq> lit 0.5"
  "lit 1.0 \<noteq> lit 0.5" "lit 1.3 \<noteq> lit 0.5" "lit 1.5 \<noteq> lit 0.5"
  by code_simp+

lemma outside_five: "x \<in> {a, b, c, d, e} \<Longrightarrow> a \<noteq> y \<Longrightarrow> b \<noteq> y \<Longrightarrow> c \<noteq> y \<Longrightarrow>
    d \<noteq> y \<Longrightarrow> e \<noteq> y \<Longrightarrow> x \<noteq> y"
  by auto

lemma getTrendMultiplier_double_cases:
  "getTrendMultiplier_double h s iv =
     (let d = calculateTrendDirection h s iv; v = \<bar>calculateVelocity h s\<bar> in
      if d = 0 then lit 1.0
      else if d = - 1 then (if v > lit 2.0 then lit 1.5 else lit 1.3)
      else (if v > lit 2.0 then double_times (lit 0.7) (lit 0.8) else lit 0.7))"
  using calculateTrendDirection_range [of h s iv]
  by (auto simp add: getTrendMultiplier_double_def Let_def directionMultipliers_double_def
      rounded_products(3,4))

text \<open>
  C10, as amended. In double precision the multiplier is always one of five values:
  the rounded product \<open>0.7 * 0.8\<close>, 0.7, 1.0, 1.3 and 1.5, and each of them is
  attained. The cap is reached (the product \<open>1.3 * 1.2\<close> is cut to 1.5); the floor
  0.5 is never returned, since the rounded product \<open>0.7 * 0.8\<close> lies above it. That
  product is the double next below the literal 0.56.
\<close>

theorem trend_multiplier_rounded_values:
  "getTrendMultiplier_double h s iv
     \<in> {double_times (lit 0.7) (lit 0.8), lit 0.7, lit 1.0, lit 1.3, lit 1.5} \<and>
   getTrendMultiplier_double h s iv \<noteq> lit 0.5 \<and>
   Math_min (double_times (lit 1.3) (lit 1.2)) (lit 1.5) = lit 1.5 \<and>
   lit 0.5 < double_times (lit 0.7) (lit 0.8) \<and>
   double_times (lit 0.7) (lit 0.8) < lit 0.56 \<and>
   getTrendMultiplier_double [''X'' \<mapsto> series_of [3, 2, 1]] ''X'' False
     = double_times (lit 0.7) (lit 0.8) \<and>
   getTrendMultiplier_double [''X'' \<mapsto> series_of [102, 101, 100]] ''X'' False = lit 0.7 \<and>
   getTrendMultiplier_double Map.empty ''X'' False = lit 1.0 \<and>
   getTrendMultiplier_double [''X'' \<mapsto> series_of [102, 101, 100]] ''X'' True = lit 1.3 \<and>
   getTrendMultiplier_double [''X'' \<mapsto> series_of [3, 2, 1]] ''X'' True = lit 1.5"
proof -
  have a: "getTrendMultiplier_double h s iv
     \<in> {double_times (lit 0.7) (lit 0.8), lit 0.7, lit 1.0, lit 1.3, lit 1.5}"
    by (simp add: getTrendMultiplier_double_cases Let_def)
  have b: "getTrendMultiplier_double h s iv \<noteq> lit 0.5"
    by (rule outside_five [OF a rounded_values_above_floor])
  have c: "lit 0.5 < double_times (lit 0.7) (lit 0.8)"
    by code_simp
  have d: "double_times (lit 0.7) (lit 0.8) < lit 0.56"
    by code_simp
  have d1: "calculateTrendDirection [''X'' \<mapsto> series_of [3, 2, 1]] ''X'' False = 1"
    and v1: "\<bar>calculateVelocity [''X'' \<mapsto> series_of [3, 2, 1]] ''X''\<bar> = Fin 100"
    and d2: "calculateTrendDirection [''X'' \<mapsto> series_of [102, 101, 100]] ''X'' False = 1"
    and v2: "\<bar>calculateVelocity [''X'' \<mapsto> series_of [102, 101, 100]] ''X''\<bar> = Fin 1"
    and d3: "calculateTrendDirection Map.empty ''X'' False = 0"
    and d4: "calculateTrendDirection [''X'' \<mapsto> series_of [102, 101, 100]] ''X'' True = - 1"
    and d5: "calculateTrendDirection [''X'' \<mapsto> series_of [3, 2, 1]] ''X'' True = - 1"
    by code_simp+
  have two: "lit 2.0 = Fin 2" by code_simp
  have e1: "getTrendMultiplier_double [''X'' \<mapsto> series_of [3, 2, 1]] ''X'' False
     = double_times (lit 0.7) (lit 0.8)"
    by (simp add: getTrendMultiplier_double_cases Let_def d1 v1 two)
  have e2: "getTrendMultiplier_double [''X'' \<mapsto> series_of [102, 101, 100]] ''X'' False
     = lit 0.7"
    by (simp add: getTrendMultiplier_double_cases Let_def d2 v2 two)
  have e3: "getTrendMultiplier_double Map.empty ''X'' False = lit 1.0"
    by (simp add: getTrendMultiplier_double_cases Let_def d3)
  have e4: "getTrendMultiplier_double [''X'' \<mapsto> series_of [102, 101, 100]] ''X'' True
     = lit 1.3"
    by (simp add: getTrendMultiplier_double_cases Let_def d4 v2 two)
  have e5: "getTrendMultiplier_double [''X'' \<mapsto> series_of [3, 2, 1]] ''X'' True = lit 1.5"
    by (simp add: getTrendMultiplier_double_cases Let_def d5 v1 two)
  from a b c d e1 e2 e3 e4 e5 rounded_products(4) show ?thesis by blast
qed

theorem trend_multiplier_rounded_values_witness:
  "getTrendMultiplier_double [''X'' \<mapsto> series_of [2, 1, 0]] ''X'' True
     \<in> {double_times (lit 0.7) (lit 0.8), lit 0.7, lit 1.0, lit 1.3, lit 1.5} \<and>
   getTrendMultiplier_double [''X'' \<mapsto> series_of [2, 1, 0]] ''X'' True \<noteq> lit 0.5"
  using trend_multiplier_rounded_values [of "[''X'' \<mapsto> series_of [2, 1, 0]]" "''X''" True]
  by blast

text \<open>
  The claim as stated fails on its value 0.56: for the series 1, 2, 3 (oldest first)
  of a plain indicator the direction is \<open>+1\<close>, the velocity is 100, and the multiplier
  is the rounded product \<open>0.7 * 0.8\<close>, which is not the number that the literal 0.56
  denotes but the double next below it.
\<close>

theorem trend_multiplier_literal_counterexample:
  "calculateTrendDirection [''X'' \<mapsto> series_of [3, 2, 1]] ''X'' False = 1 \<and>
   calculateVelocity [''X'' \<mapsto> series_of [3, 2, 1]] ''X'' = Fin 100 \<and>
   getTrendMultiplier_double [''X'' \<mapsto> series_of [3, 2, 1]] ''X'' False
     = Fin (5044031582654955 / 9007199254740992) \<and>
   lit 0.56 = Fin (5044031582654956 / 9007199254740992) \<and>
   getTrendMultiplier_double [''X'' \<mapsto> series_of [3, 2, 1]] ''X'' False \<noteq> lit 0.56"
proof -
  have d1: "calculateTrendDirection [''X'' \<mapsto> series_of [3, 2, 1]] ''X'' False = 1"
    and v0: "calculateVelocity [''X'' \<mapsto> series_of [3, 2, 1]] ''X'' = Fin 100"
    by code_simp+
  have two: "lit 2.0 = Fin 2" by code_simp
  have e1: "getTrendMultiplier_double [''X'' \<mapsto> series_of [3, 2, 1]] ''X'' False
     = Fin (5044031582654955 / 9007199254740992)"
    unfolding rounded_products(1) [symmetric]
    by (simp add: getTrendMultiplier_double_cases Let_def d1 v0 two)
  have ne: "Fin (5044031582654955 / 9007199254740992) \<noteq> lit 0.56"
    by (simp add: rounded_products(2))
  from d1 v0 e1 ne rounded_products(2) show ?thesis by simp
qed

section \<open>Velocity\<close>

text \<open>
  For at least two points the velocity is the relative change between the two end
  points, in percent, divided by the number of periods; below two points it is 0.
\<close>

lemma calculateVelocity_endpoints:
  assumes "h s = Some data" and "2 \<le> length data"
  shows "calculateVelocity h s
         = (((obs_value (hd data) - obs_value (last data)) / obs_value (last data)) * Fin 100)
             / Fin (of_nat (length data - 1))"
proof -
  from assms(2) have ne: "data \<noteq> []" by auto
  then have "data ! 0 = hd data" "data ! (length data - 1) = last data"
    by (simp_all add: hd_conv_nth last_conv_nth)
  with assms show ?thesis
    by (simp add: calculateVelocity_def Let_def)
qed

lemma calculateVelocity_short:
  "h s = None \<or> (h s = Some data \<and> length data < 2) \<Longrightarrow> calculateVelocity h s = Fin 0"
  by (auto simp add: calculateVelocity_def)

text \<open>
  C6. With an oldest value of zero the velocity is not 0: the quotient by zero does not
  throw, so the \<open>catch\<close> that would answer 0 is never entered. The result is an infinity,
  or \<open>NaN\<close> when the newest value is zero too, and an infinite velocity counts as a
  high one in \<open>getTrendMultiplier\<close>.
\<close>

theorem velocity_zero_oldest:
  "calculateVelocity [''X'' \<mapsto> series_of [5, 0]] ''X'' = PInf \<and>
   calculateVelocity [''X'' \<mapsto> series_of [0, 0]] ''X'' = NaN \<and>
   getTrendMultiplier [''X'' \<mapsto> series_of [2, 1, 0]] ''X'' True = Fin 1.5"
proof -
  have a: "calculateVelocity [''X'' \<mapsto> series_of [5, 0]] ''X'' = PInf" by code_simp
  have b: "calculateVelocity [''X'' \<mapsto> series_of [0, 0]] ''X'' = NaN" by code_simp
  have c: "getTrendMultiplier [''X'' \<mapsto> series_of [2, 1, 0]] ''X'' True = Fin 1.5" by code_simp
  from a b c show ?thesis by simp
qed

section \<open>Aggregation\<close>

lemma foldl_factor_Fin:
  "map factor fs = map Fin xs \<Longrightarrow>
   foldl (\<lambda>acc f. acc * factor f) (Fin a) fs = Fin (a * prod_list xs)"
proof (induction fs arbitrary: a xs)
  case Nil
  then show ?case by simp
next
  case (Cons f fs)
  then obtain x xs' where xs: "xs = x # xs'" and f: "factor f = Fin x"
    and rest: "map factor fs = map Fin xs'"
    by (cases xs) auto
  from Cons.IH [OF rest, of "a * x"] show ?case
    by (simp add: xs f mult.assoc)
qed

lemma combinedProduct_Fin:
  "map factor fs = map Fin xs \<Longrightarrow> combinedProduct fs = Fin (prod_list xs)"
  using foldl_factor_Fin [of fs xs 1] by (simp add: combinedProduct_def)

lemma clamp_Fin: "clamp (Fin a) (Fin 0) (Fin 1) = Fin (min (max a 0) 1)"
  by (simp add: clamp_def Math_min_def Math_max_def min_def max_def)

lemma BASE_PROBABILITIES_unit:
  "BASE_PROBABILITIES e = Fin p \<Longrightarrow> 0 < p \<and> p < 1"
  by (cases e) auto

lemma probabilityOf_Fin:
  assumes "map factor fs = map Fin xs" and "BASE_PROBABILITIES e = Fin p"
  shows "probabilityOf e fs = Fin (spec_probability p xs)"
proof (cases "fs = []")
  case True
  with assms have "xs = []" by simp
  moreover from BASE_PROBABILITIES_unit [OF assms(2)] have "0 < p" "p < 1" by auto
  ultimately show ?thesis using True assms(2)
    by (simp add: probabilityOf_def spec_probability_def spec_discount_def)
next
  case False
  from assms(1) have len: "length fs = length xs"
    by (metis length_map)
  from False show ?thesis
    by (simp add: probabilityOf_def Let_def combinedProduct_Fin [OF assms(1)] assms(2)
        CORRELATION_DISCOUNT_def truthy_property_def truthy_def to_number_def
        spec_probability_def spec_discount_def clamp_Fin len [symmetric] mult.assoc)
qed

lemma foldl_probabilities:
  "currentProbabilities
     (foldl (\<lambda>s event.
              s\<lparr>currentProbabilities :=
                  (currentProbabilities s)(event \<mapsto> probabilityOf event (updateFactors s event))\<rparr>)
            st es) e
   = (if e \<in> set es then Some (probabilityOf e (updateFactors st e))
      else currentProbabilities st e)
   \<and> updateFactors
     (foldl (\<lambda>s event.
              s\<lparr>currentProbabilities :=
                  (currentProbabilities s)(event \<mapsto> probabilityOf event (updateFactors s event))\<rparr>)
            st es) = updateFactors st"
  by (induction es arbitrary: st rule: rev_induct) auto

lemma event_in_events: "e \<in> set events"
  by (cases e) (simp_all add: events_def)

lemma calculateAllProbabilities_current:
  "currentProbabilities (calculateAllProbabilities st) e =
     (if currentProbabilities st e = None then None
      else Some (probabilityOf e (updateFactors st e)))"
  by (simp add: calculateAllProbabilities_def foldl_probabilities event_in_events)

text \<open>
  C1. For every event that has a probability and every list of finite factors that
  \<open>updateFactors\<close> holds for it, the probability after \<open>calculateAllProbabilities\<close> is
  \<open>clamp (basePrior * C, 0, 1)\<close>, where \<open>C\<close> is the product of the factors, times 0.7
  for exactly two factors and times 0.5 for three or more. With no factor it is the base
  prior itself, and with factors 1.8 and 2.0 and prior 0.15 it is 0.378.
\<close>

theorem aggregation_formula:
  assumes "currentProbabilities st event \<noteq> None"
    and "map factor (updateFactors st event) = map Fin xs"
    and "BASE_PROBABILITIES event = Fin p"
  shows "currentProbabilities (calculateAllProbabilities st) event
           = Some (Fin (spec_probability p xs)) \<and>
         (xs = [] \<longrightarrow> currentProbabilities (calculateAllProbabilities st) event
           = Some (BASE_PROBABILITIES event)) \<and>
         (p = 0.15 \<and> xs = [1.8, 2.0] \<longrightarrow>
            currentProbabilities (calculateAllProbabilities st) event = Some (Fin 0.378))"
proof -
  have main: "currentProbabilities (calculateAllProbabilities st) event
           = Some (Fin (spec_probability p xs))"
    using assms by (simp add: calculateAllProbabilities_current probabilityOf_Fin)
  have zero: "xs = [] \<longrightarrow> probabilityOf event (updateFactors st event) = BASE_PROBABILITIES event"
    using assms(2) by (auto simp add: probabilityOf_def)
  have ex: "p = 0.15 \<and> xs = [1.8, 2.0] \<longrightarrow>
            currentProbabilities (calculateAllProbabilities st) event = Some (Fin 0.378)"
  proof (intro impI, elim conjE)
    assume p: "p = 0.15" and x: "xs = [1.8, 2.0]"
    have "spec_probability p xs = 0.378"
      unfolding p x by (simp add: spec_probability_def spec_discount_def)
    with main show "currentProbabilities (calculateAllProbabilities st) event = Some (Fin 0.378)"
      by simp
  qed
  from assms(1) zero
  have z: "xs = [] \<longrightarrow> currentProbabilities (calculateAllProbabilities st) event
           = Some (BASE_PROBABILITIES event)"
    by (auto simp add: calculateAllProbabilities_current)
  from main z ex show ?thesis by blast
qed

theorem aggregation_formula_witness:
  "currentProbabilities
     (calculateAllProbabilities
        (evaluateThresholds (resetFactors constructor) deficit_spread_snapshot)) recession
   = Some (Fin 0.378)"
proof -
  let ?st = "evaluateThresholds (resetFactors constructor) deficit_spread_snapshot"
  have a: "currentProbabilities ?st recession \<noteq> None" by code_simp
  have b: "map factor (updateFactors ?st recession) = map Fin [1.8, 2.0]" by code_simp
  have c: "BASE_PROBABILITIES recession = Fin 0.15" by simp
  from aggregation_formula [OF a b c] show ?thesis
    by (simp add: spec_probability_def spec_discount_def)
qed


section \<open>Monotonicity\<close>

lemma prod_list_positive: "\<forall>x \<in> set xs. (0::rat) < x \<Longrightarrow> 0 < prod_list xs"
  by (induction xs) simp_all

text \<open>
  C7, as amended. For a list of positive finite factors, appending one more factor does
  not decrease the combined product (taken before the correlation discount) exactly when
  the effective factor of the appended entry is at least 1.
\<close>

theorem appended_factor_monotone:
  assumes "map factor fs = map Fin xs" and "\<forall>x \<in> set xs. 0 < x" and "factor f = Fin y"
  shows "(combinedProduct fs \<le> combinedProduct (fs @ [f])) = (1 \<le> y)"
proof -
  have "map factor (fs @ [f]) = map Fin (xs @ [y])"
    using assms(1,3) by simp
  then have app: "combinedProduct (fs @ [f]) = Fin (prod_list xs * y)"
    using combinedProduct_Fin [of "fs @ [f]" "xs @ [y]"] by simp
  have pos: "0 < prod_list xs"
    using assms(2) by (rule prod_list_positive)
  have "(prod_list xs \<le> prod_list xs * y) = (1 \<le> y)"
    using pos by simp
  then show ?thesis
    by (simp add: app combinedProduct_Fin [OF assms(1)])
qed

theorem appended_factor_monotone_witness:
  "combinedProduct [plain_entry recession_deficitGDP]
     \<le> combinedProduct ([plain_entry recession_deficitGDP] @ [plain_entry recession_creditSpreads])"
proof -
  have a: "map factor [plain_entry recession_deficitGDP] = map Fin [1.8]"
    by (simp add: plain_entry_def recession_deficitGDP_def)
  have b: "\<forall>x \<in> set [1.8::rat]. 0 < x" by simp
  have c: "factor (plain_entry recession_creditSpreads) = Fin 2.0"
    by (simp add: plain_entry_def recession_creditSpreads_def)
  from appended_factor_monotone [OF a b c] show ?thesis by simp
qed

text \<open>
  The claim without the side condition fails in a cycle: the yield-curve rule triggers
  with multiplier 0.56, its effective factor is \<open>1.7 * 0.56 = 0.952\<close>, and the
  combined product falls from 1.8 to 1.7136.
\<close>

theorem appended_factor_counterexample:
  "map factor (updateFactors
       (fst (updateProbabilities constructor (Inr yield_backend) deficit_snapshot)) recession)
     = [Fin 1.8] \<and>
   map factor (updateFactors
       (fst (updateProbabilities constructor (Inr yield_backend) deficit_yield_snapshot)) recession)
     = [Fin 1.8, Fin 0.952] \<and>
   \<not> combinedProduct (updateFactors
       (fst (updateProbabilities constructor (Inr yield_backend) deficit_snapshot)) recession)
     \<le> combinedProduct (updateFactors
       (fst (updateProbabilities constructor (Inr yield_backend) deficit_yield_snapshot)) recession)"
proof -
  have a: "map factor (updateFactors
       (fst (updateProbabilities constructor (Inr yield_backend) deficit_snapshot)) recession)
     = [Fin 1.8]" by code_simp
  have b: "map factor (updateFactors
       (fst (updateProbabilities constructor (Inr yield_backend) deficit_yield_snapshot)) recession)
     = [Fin 1.8, Fin 0.952]" by code_simp
  have c: "\<not> combinedProduct (updateFactors
       (fst (updateProbabilities constructor (Inr yield_backend) deficit_snapshot)) recession)
     \<le> combinedProduct (updateFactors
       (fst (updateProbabilities constructor (Inr yield_backend) deficit_yield_snapshot)) recession)"
    by code_simp
  from a b c show ?thesis by blast
qed

section \<open>Trend adjustment of the emitted factors\<close>

text \<open>
  C3. Only the three recession rules pass their factor through \<open>applyTrendAdjustment\<close>.
  Here the analyzer has the multiplier 1.5 for the federal funds rate, and the depression
  rule on that indicator still emits its base factor 3.0, not 4.5; in the same kind of
  cycle a recession rule does emit the adjusted factor (1.7 * 0.56 = 0.952).
\<close>

theorem depression_factor_not_adjusted:
  "trendMultipliers (fst (updateProbabilities constructor (Inr funds_backend) funds_snapshot))
     ''DFF'' = Some (Fin 1.5) \<and>
   map factor (updateFactors
       (fst (updateProbabilities constructor (Inr funds_backend) funds_snapshot)) depression)
     = [Fin 3.0] \<and>
   trendMultipliers
     (fst (updateProbabilities constructor (Inr yield_backend) deficit_yield_snapshot))
     ''T10Y2Y'' = Some (Fin 0.56) \<and>
   map factor (updateFactors
       (fst (updateProbabilities constructor (Inr yield_backend) deficit_yield_snapshot)) recession)
     = [Fin 1.8, Fin 1.7 * Fin 0.56]"
proof -
  have a: "trendMultipliers
     (fst (updateProbabilities constructor (Inr funds_backend) funds_snapshot))
     ''DFF'' = Some (Fin 1.5)" by code_simp
  have b: "map factor (updateFactors
       (fst (updateProbabilities constructor (Inr funds_backend) funds_snapshot)) depression)
     = [Fin 3.0]" by code_simp
  have c: "trendMultipliers
     (fst (updateProbabilities constructor (Inr yield_backend) deficit_yield_snapshot))
     ''T10Y2Y'' = Some (Fin 0.56)" by code_simp
  have d: "map factor (updateFactors
       (fst (updateProbabilities constructor (Inr yield_backend) deficit_yield_snapshot)) recession)
     = [Fin 1.8, Fin 1.7 * Fin 0.56]" by code_simp
  from a b c d show ?thesis by blast
qed


section \<open>What the threshold evaluation leaves untouched\<close>

lemma push_fields [simp]:
  "updateFactors (push st e x) = (updateFactors st)(e := updateFactors st e @ [x])"
  "currentProbabilities (push st e x) = currentProbabilities st"
  "trendMultipliers (push st e x) = trendMultipliers st"
  "useTrendAnalysis (push st e x) = useTrendAnalysis st"
  "trendAnalyzer (push st e x) = trendAnalyzer st"
  by (simp_all add: push_def)

lemma applyTrendAdjustment_push [simp]:
  "applyTrendAdjustment (push st e x) b s = applyTrendAdjustment st b s"
  by (simp add: applyTrendAdjustment_def)

lemma adjusted_entry_push [simp]:
  "adjusted_entry (push st e x) thr s = adjusted_entry st thr s"
  by (simp add: adjusted_entry_def)

lemma calculateRecessionFactors_fields [simp]:
  "currentProbabilities (calculateRecessionFactors st ind) = currentProbabilities st"
  "trendMultipliers (calculateRecessionFactors st ind) = trendMultipliers st"
  "useTrendAnalysis (calculateRecessionFactors st ind) = useTrendAnalysis st"
  by (simp_all add: calculateRecessionFactors_def Let_def)

lemma calculateDepressionFactors_fields [simp]:
  "currentProbabilities (calculateDepressionFactors st ind) = currentProbabilities st"
  "trendMultipliers (calculateDepressionFactors st ind) = trendMultipliers st"
  "useTrendAnalysis (calculateDepressionFactors st ind) = useTrendAnalysis st"
  by (simp_all add: calculateDepressionFactors_def Let_def split: option.split sum.split)

lemma calculateReserveFactors_fields [simp]:
  "currentProbabilities (calculateReserveFactors st ind) = currentProbabilities st"
  "trendMultipliers (calculateReserveFactors st ind) = trendMultipliers st"
  "useTrendAnalysis (calculateReserveFactors st ind) = useTrendAnalysis st"
  by (simp_all add: calculateReserveFactors_def)

lemma calculateDefaultFactors_fields [simp]:
  "currentProbabilities (calculateDefaultFactors st ind) = currentProbabilities st"
  "trendMultipliers (calculateDefaultFactors st ind) = trendMultipliers st"
  "useTrendAnalysis (calculateDefaultFactors st ind) = useTrendAnalysis st"
  by (simp_all add: calculateDefaultFactors_def Let_def split: option.split sum.split)

lemma calculateDevaluationFactors_fields [simp]:
  "currentProbabilities (calculateDevaluationFactors st ind) = currentProbabilities st"
  "trendMultipliers (calculateDevaluationFactors st ind) = trendMultipliers st"
  "useTrendAnalysis (calculateDevaluationFactors st ind) = useTrendAnalysis st"
  by (simp_all add: calculateDevaluationFactors_def Let_def)

lemma evaluateThresholds_fields [simp]:
  "currentProbabilities (evaluateThresholds st ind) = currentProbabilities st"
  "trendMultipliers (evaluateThresholds st ind) = trendMultipliers st"
  "useTrendAnalysis (evaluateThresholds st ind) = useTrendAnalysis st"
  by (simp_all add: evaluateThresholds_def Let_def)

section \<open>Bounds\<close>

lemma truthy_times: "truthy x \<Longrightarrow> truthy y \<Longrightarrow> truthy (x * y)"
  by (cases x; cases y) (auto simp add: truthy_def)

lemma truthy_applyTrendAdjustment:
  "truthy b \<Longrightarrow> truthy (applyTrendAdjustment st b s)"
  by (auto simp add: applyTrendAdjustment_def Let_def truthy_property_def to_number_def
      intro: truthy_times split: option.splits)

lemma truthy_adjusted_entry:
  "truthy (thr_factor thr) \<Longrightarrow> truthy (factor (adjusted_entry st thr s))"
  by (simp add: adjusted_entry_def Let_def truthy_applyTrendAdjustment)

lemma truthy_plain_entry:
  "truthy (thr_factor thr) \<Longrightarrow> truthy (factor (plain_entry thr))"
  by (simp add: plain_entry_def)

lemma truthy_thresholds:
  "truthy (thr_factor recession_deficitGDP)"
  "truthy (thr_factor recession_creditSpreads)"
  "truthy (thr_factor recession_yieldCurve)"
  "truthy (thr_factor depression_fedFunds)"
  "truthy (thr_factor depression_debtGDP)"
  "truthy (thr_factor depression_mbToM2)"
  "truthy (thr_factor reserve_dxy)"
  "truthy (thr_factor default_deficitGDP)"
  "truthy (thr_factor default_interestPayments)"
  "truthy (thr_factor default_rateSpread)"
  "truthy (thr_factor devaluation_dxy)"
  "truthy (thr_factor devaluation_deficitGDP)"
  by (simp_all add: truthy_def recession_deficitGDP_def recession_creditSpreads_def
      recession_yieldCurve_def depression_fedFunds_def depression_debtGDP_def
      depression_mbToM2_def reserve_dxy_def default_deficitGDP_def
      default_interestPayments_def default_rateSpread_def devaluation_dxy_def
      devaluation_deficitGDP_def)

lemma factors_truthy_push:
  "factors_truthy st \<Longrightarrow> truthy (factor x) \<Longrightarrow> factors_truthy (push st e x)"
  by (auto simp add: factors_truthy_def)

lemma factors_truthy_resetFactors: "factors_truthy (resetFactors st)"
  by (simp add: factors_truthy_def resetFactors_def)

lemma factors_truthy_recession:
  "factors_truthy st \<Longrightarrow> factors_truthy (calculateRecessionFactors st ind)"
  by (simp add: calculateRecessionFactors_def Let_def factors_truthy_push
      truthy_adjusted_entry truthy_thresholds)

lemma factors_truthy_depression:
  "factors_truthy st \<Longrightarrow> factors_truthy (calculateDepressionFactors st ind)"
  by (simp add: calculateDepressionFactors_def Let_def factors_truthy_push
      truthy_plain_entry truthy_thresholds split: option.split sum.split)

lemma factors_truthy_reserve:
  "factors_truthy st \<Longrightarrow> factors_truthy (calculateReserveFactors st ind)"
  by (simp add: calculateReserveFactors_def factors_truthy_push
      truthy_plain_entry truthy_thresholds)

lemma factors_truthy_default:
  "factors_truthy st \<Longrightarrow> factors_truthy (calculateDefaultFactors st ind)"
  by (simp add: calculateDefaultFactors_def Let_def factors_truthy_push
      truthy_plain_entry truthy_thresholds split: option.split sum.split)

lemma factors_truthy_devaluation:
  "factors_truthy st \<Longrightarrow> factors_truthy (calculateDevaluationFactors st ind)"
  by (simp add: calculateDevaluationFactors_def Let_def factors_truthy_push
      truthy_plain_entry truthy_thresholds)

lemma factors_truthy_evaluateThresholds:
  "factors_truthy st \<Longrightarrow> factors_truthy (evaluateThresholds st ind)"
  by (simp add: evaluateThresholds_def Let_def factors_truthy_recession
      factors_truthy_depression factors_truthy_reserve factors_truthy_default
      factors_truthy_devaluation)

lemma truthy_foldl:
  "truthy a \<Longrightarrow> \<forall>f \<in> set fs. truthy (factor f) \<Longrightarrow>
   truthy (foldl (\<lambda>acc f. acc * factor f) a fs)"
  by (induction fs arbitrary: a) (simp_all add: truthy_times)

lemma clamp_unit:
  "x \<noteq> NaN \<Longrightarrow> Fin 0 \<le> clamp x (Fin 0) (Fin 1) \<and> clamp x (Fin 0) (Fin 1) \<le> Fin 1"
  by (cases x) (auto simp add: clamp_def Math_min_def Math_max_def)

lemma BASE_PROBABILITIES_truthy: "truthy (BASE_PROBABILITIES e)"
  by (cases e) (simp_all add: truthy_def)

lemma BASE_PROBABILITIES_range:
  "Fin 0 \<le> BASE_PROBABILITIES e \<and> BASE_PROBABILITIES e \<le> Fin 1"
  by (cases e) simp_all

lemma probabilityOf_range:
  assumes "\<forall>f \<in> set fs. truthy (factor f)"
  shows "Fin 0 \<le> probabilityOf e fs \<and> probabilityOf e fs \<le> Fin 1"
proof (cases "fs = []")
  case True
  then show ?thesis by (simp add: probabilityOf_def BASE_PROBABILITIES_range)
next
  case False
  have c: "truthy (combinedProduct fs)"
    unfolding combinedProduct_def using assms by (intro truthy_foldl) (simp_all add: truthy_def)
  have d2: "truthy (Fin 0.7)" and d3: "truthy (Fin 0.5)" by (simp_all add: truthy_def)
  let ?d = "if length fs = 2 \<and> truthy_property (CORRELATION_DISCOUNT 2)
            then combinedProduct fs * to_number (CORRELATION_DISCOUNT 2)
            else if length fs \<ge> 3 \<and> truthy_property (CORRELATION_DISCOUNT 3)
            then combinedProduct fs * to_number (CORRELATION_DISCOUNT 3)
            else combinedProduct fs"
  have "truthy ?d"
    using c truthy_times [OF c d2] truthy_times [OF c d3]
    by (simp add: CORRELATION_DISCOUNT_def to_number_def)
  then have "truthy (BASE_PROBABILITIES e * ?d)"
    by (rule truthy_times [OF BASE_PROBABILITIES_truthy])
  then have "BASE_PROBABILITIES e * ?d \<noteq> NaN" by (simp add: truthy_def)
  from clamp_unit [OF this] False show ?thesis
    by (simp add: probabilityOf_def Let_def)
qed


lemma updateProbabilities_range:
  assumes "snd (updateProbabilities st env ind) e = Some p"
  shows "Fin 0 \<le> p \<and> p \<le> Fin 1"
proof -
  define st1 where "st1 = (if useTrendAnalysis (resetFactors st) then
                   (case env of
                      Inr backend \<Rightarrow>
                        let (fetched, multipliers) =
                              analyzeAllTrends (trendAnalyzer (resetFactors st)) backend ind
                        in (resetFactors st)\<lparr>trendAnalyzer := fetched, trendMultipliers := multipliers\<rparr>
                    | Inl e \<Rightarrow> (resetFactors st)\<lparr>trendMultipliers := Map.empty\<rparr>)
                 else resetFactors st)"
  have "updateFactors st1 = (\<lambda>e. [])"
    by (simp add: st1_def resetFactors_def split: sum.split prod.split)
  then have "factors_truthy st1" by (simp add: factors_truthy_def)
  then have t: "factors_truthy (evaluateThresholds st1 ind)"
    by (rule factors_truthy_evaluateThresholds)
  have "snd (updateProbabilities st env ind)
        = currentProbabilities (calculateAllProbabilities (evaluateThresholds st1 ind))"
    by (simp add: updateProbabilities_def Let_def st1_def)
  with assms have "p = probabilityOf e (updateFactors (evaluateThresholds st1 ind) e)"
    by (simp add: calculateAllProbabilities_current split: if_splits)
  moreover from t have "\<forall>f \<in> set (updateFactors (evaluateThresholds st1 ind) e). truthy (factor f)"
    by (simp add: factors_truthy_def)
  ultimately show ?thesis using probabilityOf_range by simp
qed

lemma multiplier_values_bounds:
  "m \<in> {Fin 0.56, Fin 0.7, Fin 1.0, Fin 1.3, Fin 1.5} \<Longrightarrow> Fin 0.5 \<le> m \<and> m \<le> Fin 1.5"
  by auto

lemma analyzed_multipliers:
  "foldl (\<lambda>tm seriesId.
            if fetched seriesId \<noteq> None then
              let isInverted = (seriesId \<in> invertedIndicators)
              in tm(seriesId \<mapsto> getTrendMultiplier fetched seriesId isInverted)
            else tm) tm0 ids s = Some m \<Longrightarrow>
   tm0 s = Some m \<or> m \<in> {Fin 0.56, Fin 0.7, Fin 1.0, Fin 1.3, Fin 1.5}"
proof (induction ids arbitrary: m rule: rev_induct)
  case Nil
  then show ?case by simp
next
  case (snoc x xs)
  show ?case
  proof (cases "fetched x \<noteq> None \<and> s = x")
    case True
    with snoc.prems have "m = getTrendMultiplier fetched x (x \<in> invertedIndicators)"
      by (simp add: Let_def)
    then show ?thesis using getTrendMultiplier_values by blast
  next
    case False
    with snoc.prems snoc.IH show ?thesis
      by (auto simp add: Let_def split: if_splits)
  qed
qed

lemma analyzeAllTrends_values:
  "snd (analyzeAllTrends h backend ind) s = Some m \<Longrightarrow>
   m \<in> {Fin 0.56, Fin 0.7, Fin 1.0, Fin 1.3, Fin 1.5}"
  using analyzed_multipliers [of _ Map.empty _ s m]
  by (simp add: analyzeAllTrends_def Let_def)

text \<open>
  C2. Whatever the calculator state, the trend environment and the snapshot, every
  probability that a cycle returns lies in \<open>[0, 1]\<close>; every multiplier that
  \<open>getTrendMultiplier\<close> returns, and so every multiplier in the result of
  \<open>analyzeAllTrends\<close>, lies in \<open>[0.5, 1.5]\<close>.
\<close>

theorem probability_and_multiplier_bounds:
  "(snd (updateProbabilities st env indicators) event = Some p \<longrightarrow> Fin 0 \<le> p \<and> p \<le> Fin 1) \<and>
   Fin 0.5 \<le> getTrendMultiplier h s iv \<and> getTrendMultiplier h s iv \<le> Fin 1.5 \<and>
   (snd (analyzeAllTrends h backend indicators) s = Some m \<longrightarrow> Fin 0.5 \<le> m \<and> m \<le> Fin 1.5)"
  using updateProbabilities_range [of st env indicators event p]
    multiplier_values_bounds [OF getTrendMultiplier_values [of h s iv]]
    multiplier_values_bounds [OF analyzeAllTrends_values [of h backend indicators s m]]
  by blast

theorem probability_and_multiplier_bounds_witness:
  "snd (updateProbabilities constructor (Inr yield_backend) deficit_yield_snapshot) recession
     = Some (Fin 0.179928) \<and>
   Fin 0 \<le> Fin 0.179928 \<and> Fin 0.179928 \<le> Fin 1 \<and>
   snd (analyzeAllTrends Map.empty yield_backend deficit_yield_snapshot) ''T10Y2Y''
     = Some (Fin 0.56) \<and>
   Fin 0.5 \<le> Fin 0.56 \<and> Fin 0.56 \<le> Fin 1.5"
proof -
  have a: "snd (updateProbabilities constructor (Inr yield_backend) deficit_yield_snapshot)
             recession = Some (Fin 0.179928)" by code_simp
  have b: "snd (analyzeAllTrends Map.empty yield_backend deficit_yield_snapshot) ''T10Y2Y''
             = Some (Fin 0.56)" by code_simp
  from probability_and_multiplier_bounds
         [where st = constructor and env = "Inr yield_backend"
            and indicators = deficit_yield_snapshot and event = recession
            and p = "Fin 0.179928" and h = Map.empty and s = "''T10Y2Y''" and iv = False
            and backend = yield_backend and m = "Fin 0.56"] a b
  show ?thesis by blast
qed


section \<open>Unavailable indicators\<close>

lemma checkThreshold_NaN: "isNaN (parseFloat v) \<Longrightarrow> \<not> checkThreshold v t operator"
  by (simp add: checkThreshold_def validateNumber_def)

lemma present_and_over_unavailable:
  "unavailable ind s \<Longrightarrow> \<not> present_and_over ind s thr operator"
  by (simp add: unavailable_def present_and_over_def checkThreshold_NaN split: option.splits)

lemma validateNumber_unavailable:
  "unavailable ind s \<Longrightarrow> map_of ind s = Some i \<Longrightarrow> validateNumber (raw i) = Inl ValidationError"
  by (simp add: unavailable_def validateNumber_def)

lemma reasons_push:
  "reasons (push st e x) e' = (if e' = e then insert (reason x) (reasons st e) else reasons st e')"
  by (auto simp add: reasons_def)

lemma reason_entries [simp]:
  "reason (adjusted_entry st thr s) = thr_reason thr"
  "reason (plain_entry thr) = thr_reason thr"
  by (simp_all add: adjusted_entry_def plain_entry_def Let_def)

lemma recession_reasons:
  "r \<in> reasons (calculateRecessionFactors st ind) e \<Longrightarrow>
   r \<in> reasons st e \<or>
   e = recession \<and>
   (r = thr_reason recession_deficitGDP \<and> \<not> unavailable ind ''DeficitGDP'' \<or>
    r = thr_reason recession_creditSpreads \<and> \<not> unavailable ind ''BAA10Y'' \<or>
    r = thr_reason recession_yieldCurve \<and> \<not> unavailable ind ''T10Y2Y'')"
  using present_and_over_unavailable [of ind]
  by (auto simp add: calculateRecessionFactors_def Let_def reasons_push split: if_splits)

lemma depression_reasons:
  "r \<in> reasons (calculateDepressionFactors st ind) e \<Longrightarrow>
   r \<in> reasons st e \<or>
   e = depression \<and>
   (r = thr_reason depression_fedFunds \<and> \<not> unavailable ind ''DFF'' \<or>
    r = thr_reason depression_debtGDP \<and> \<not> unavailable ind ''GFDGDPA188S'' \<or>
    r = thr_reason depression_mbToM2 \<and> \<not> unavailable ind ''BOGMBASE''
      \<and> \<not> unavailable ind ''M2SL'')"
  using present_and_over_unavailable [of ind] validateNumber_unavailable [of ind]
  by (auto simp add: calculateDepressionFactors_def Let_def reasons_push
      split: if_splits option.splits sum.splits)

lemma reserve_reasons:
  "r \<in> reasons (calculateReserveFactors st ind) e \<Longrightarrow>
   r \<in> reasons st e \<or>
   e = reserve \<and> r = thr_reason reserve_dxy \<and> \<not> unavailable ind ''DXY''"
  using present_and_over_unavailable [of ind]
  by (auto simp add: calculateReserveFactors_def reasons_push split: if_splits)

lemma default_reasons:
  "r \<in> reasons (calculateDefaultFactors st ind) e \<Longrightarrow>
   r \<in> reasons st e \<or>
   e = default \<and>
   (r = thr_reason default_deficitGDP \<and> \<not> unavailable ind ''DeficitGDP'' \<or>
    r = thr_reason default_interestPayments \<and> \<not> unavailable ind ''A091RC1Q027SBEA'' \<or>
    r = thr_reason default_rateSpread \<and> \<not> unavailable ind ''DGS10''
      \<and> \<not> unavailable ind ''DFF'')"
  using present_and_over_unavailable [of ind] validateNumber_unavailable [of ind]
  by (auto simp add: calculateDefaultFactors_def Let_def reasons_push
      split: if_splits option.splits sum.splits)

lemma devaluation_reasons:
  "r \<in> reasons (calculateDevaluationFactors st ind) e \<Longrightarrow>
   r \<in> reasons st e \<or>
   e = devaluation \<and>
   (r = thr_reason devaluation_dxy \<and> \<not> unavailable ind ''DXY'' \<or>
    r = thr_reason devaluation_deficitGDP \<and> \<not> unavailable ind ''DeficitGDP'')"
  using present_and_over_unavailable [of ind]
  by (auto simp add: calculateDevaluationFactors_def Let_def reasons_push split: if_splits)


lemma rules_mem:
  "(recession, [''DeficitGDP''], recession_deficitGDP) \<in> set rules"
  "(recession, [''BAA10Y''], recession_creditSpreads) \<in> set rules"
  "(recession, [''T10Y2Y''], recession_yieldCurve) \<in> set rules"
  "(depression, [''DFF''], depression_fedFunds) \<in> set rules"
  "(depression, [''GFDGDPA188S''], depression_debtGDP) \<in> set rules"
  "(depression, [''BOGMBASE'', ''M2SL''], depression_mbToM2) \<in> set rules"
  "(reserve, [''DXY''], reserve_dxy) \<in> set rules"
  "(default, [''DeficitGDP''], default_deficitGDP) \<in> set rules"
  "(default, [''A091RC1Q027SBEA''], default_interestPayments) \<in> set rules"
  "(default, [''DGS10'', ''DFF''], default_rateSpread) \<in> set rules"
  "(devaluation, [''DXY''], devaluation_dxy) \<in> set rules"
  "(devaluation, [''DeficitGDP''], devaluation_deficitGDP) \<in> set rules"
  by (simp_all add: rules_def)

lemma rule_firesI:
  "(e, ids, thr) \<in> set rules \<Longrightarrow> r = thr_reason thr \<Longrightarrow>
   \<forall>s \<in> set ids. \<not> unavailable ind s \<Longrightarrow>
   \<exists>ids thr. (e, ids, thr) \<in> set rules \<and> r = thr_reason thr \<and>
             (\<forall>s \<in> set ids. \<not> unavailable ind s)"
  by blast

lemma evaluateThresholds_reasons:
  assumes "r \<in> reasons (evaluateThresholds st ind) e"
  shows "r \<in> reasons st e \<or>
         (\<exists>ids thr. (e, ids, thr) \<in> set rules \<and> r = thr_reason thr \<and>
                    (\<forall>s \<in> set ids. \<not> unavailable ind s))"
proof -
  let ?s1 = "calculateRecessionFactors st ind"
  let ?s2 = "calculateDepressionFactors ?s1 ind"
  let ?s3 = "calculateReserveFactors ?s2 ind"
  let ?s4 = "calculateDefaultFactors ?s3 ind"
  let ?fired = "\<exists>ids thr. (e, ids, thr) \<in> set rules \<and> r = thr_reason thr \<and>
                    (\<forall>s \<in> set ids. \<not> unavailable ind s)"
  from assms have "r \<in> reasons (calculateDevaluationFactors ?s4 ind) e"
    by (simp add: evaluateThresholds_def Let_def)
  from devaluation_reasons [OF this] have 5: "r \<in> reasons ?s4 e \<or> ?fired"
    by (elim disjE conjE) (simp, (rule disjI2, erule ssubst, rule rule_firesI,
        rule rules_mem, assumption, simp)+)
  have 4: "r \<in> reasons ?s4 e \<Longrightarrow> r \<in> reasons ?s3 e \<or> ?fired"
    by (drule default_reasons, elim disjE conjE) (simp, (rule disjI2, erule ssubst,
        rule rule_firesI, rule rules_mem, assumption, simp)+)
  have 3: "r \<in> reasons ?s3 e \<Longrightarrow> r \<in> reasons ?s2 e \<or> ?fired"
    by (drule reserve_reasons, elim disjE conjE) (simp, (rule disjI2, erule ssubst,
        rule rule_firesI, rule rules_mem, assumption, simp)+)
  have 2: "r \<in> reasons ?s2 e \<Longrightarrow> r \<in> reasons ?s1 e \<or> ?fired"
    by (drule depression_reasons, elim disjE conjE) (simp, (rule disjI2, erule ssubst,
        rule rule_firesI, rule rules_mem, assumption, simp)+)
  have 1: "r \<in> reasons ?s1 e \<Longrightarrow> r \<in> reasons st e \<or> ?fired"
    by (drule recession_reasons, elim disjE conjE) (simp, (rule disjI2, erule ssubst,
        rule rule_firesI, rule rules_mem, assumption, simp)+)
  from 5 4 3 2 1 show ?thesis by blast
qed


lemma thr_reasons:
  "thr_reason recession_deficitGDP = ''Deficit > 5% GDP''"
  "thr_reason recession_creditSpreads = ''Credit spreads > 400bps''"
  "thr_reason recession_yieldCurve = ''Yield curve inverted''"
  "thr_reason depression_fedFunds = ''Fed Funds < 0.5%''"
  "thr_reason depression_debtGDP = ''Debt/GDP > 150%''"
  "thr_reason depression_mbToM2 = ''Extreme QE conditions''"
  "thr_reason reserve_dxy = ''Dollar weakness''"
  "thr_reason default_deficitGDP = ''Deficit > 7% GDP''"
  "thr_reason default_interestPayments = ''Interest payments > 4% GDP''"
  "thr_reason default_rateSpread = ''Rising long-term rates''"
  "thr_reason devaluation_dxy = ''DXY < 100''"
  "thr_reason devaluation_deficitGDP = ''High deficit monetization risk''"
  by (simp_all add: recession_deficitGDP_def recession_creditSpreads_def
      recession_yieldCurve_def depression_fedFunds_def depression_debtGDP_def
      depression_mbToM2_def reserve_dxy_def default_deficitGDP_def
      default_interestPayments_def default_rateSpread_def devaluation_dxy_def
      devaluation_deficitGDP_def)

lemma rules_reason_table:
  "(e, ids, thr) \<in> set rules \<Longrightarrow>
   map_of (map (\<lambda>(e, ids, thr). (thr_reason thr, ids)) rules) (thr_reason thr) = Some ids"
  unfolding rules_def
  by (elim disjE | simp only: set_simps insert_iff empty_iff)+
     (simp_all add: thr_reasons)

lemma rules_reason_unique:
  "(e, ids, thr) \<in> set rules \<Longrightarrow> (e', ids', thr') \<in> set rules \<Longrightarrow>
   thr_reason thr = thr_reason thr' \<Longrightarrow> ids = ids'"
  using rules_reason_table [of e ids thr] rules_reason_table [of e' ids' thr']
  by simp


lemma calculateAllProbabilities_updateFactors [simp]:
  "updateFactors (calculateAllProbabilities st) = updateFactors st"
  by (simp add: calculateAllProbabilities_def foldl_probabilities)

lemma updateProbabilities_reasons:
  "\<exists>st1. reasons st1 e = {} \<and>
     reasons (fst (updateProbabilities st env ind)) e = reasons (evaluateThresholds st1 ind) e"
proof -
  let ?st1 = "(if useTrendAnalysis (resetFactors st) then
                   (case env of
                      Inr backend \<Rightarrow>
                        let (fetched, multipliers) =
                              analyzeAllTrends (trendAnalyzer (resetFactors st)) backend ind
                        in (resetFactors st)\<lparr>trendAnalyzer := fetched, trendMultipliers := multipliers\<rparr>
                    | Inl e \<Rightarrow> (resetFactors st)\<lparr>trendMultipliers := Map.empty\<rparr>)
                 else resetFactors st)"
  have "updateFactors ?st1 = (\<lambda>e. [])"
    by (simp add: resetFactors_def split: sum.split prod.split)
  then have "reasons ?st1 e = {}" by (simp add: reasons_def)
  moreover have "reasons (fst (updateProbabilities st env ind)) e
                 = reasons (evaluateThresholds ?st1 ind) e"
    by (simp add: updateProbabilities_def Let_def reasons_def)
  ultimately show ?thesis by blast
qed

text \<open>
  C8. For every rule of the table: when an indicator that the rule reads is absent from
  the snapshot, or its raw value is \<open>NaN\<close> or not numeric, the cycle (a total function:
  nothing is thrown) leaves no entry with that rule's reason in the factor list of the
  rule's event. A value that \<open>parseFloat\<close> reads as \<open>NaN\<close> satisfies no comparison,
  whatever the operator.
\<close>

theorem unavailable_indicator_skipped:
  assumes "(ev, ids, thr) \<in> set rules" and "\<exists>s \<in> set ids. unavailable indicators s"
  shows "thr_reason thr \<notin> reasons (fst (updateProbabilities st env indicators)) ev \<and>
         (isNaN (parseFloat v) \<longrightarrow> \<not> checkThreshold v t operator)"
proof -
  obtain st1 where empty: "reasons st1 ev = {}"
    and eq: "reasons (fst (updateProbabilities st env indicators)) ev
             = reasons (evaluateThresholds st1 indicators) ev"
    using updateProbabilities_reasons by blast
  have "thr_reason thr \<notin> reasons (evaluateThresholds st1 indicators) ev"
  proof
    assume "thr_reason thr \<in> reasons (evaluateThresholds st1 indicators) ev"
    from evaluateThresholds_reasons [OF this] empty
    obtain ids' thr' where r: "(ev, ids', thr') \<in> set rules"
      and same: "thr_reason thr = thr_reason thr'"
      and avail: "\<forall>s \<in> set ids'. \<not> unavailable indicators s"
      by auto
    from rules_reason_unique [OF assms(1) r same] have "ids = ids'" .
    with avail assms(2) show False by blast
  qed
  with eq show ?thesis by (simp add: checkThreshold_NaN)
qed

theorem unavailable_indicator_skipped_witness:
  "thr_reason recession_deficitGDP
     \<notin> reasons (fst (updateProbabilities constructor (Inl FetchError) malformed_snapshot))
         recession"
proof -
  have a: "(recession, [''DeficitGDP''], recession_deficitGDP) \<in> set rules"
    by (simp add: rules_def)
  have b: "\<exists>s \<in> set [''DeficitGDP'']. unavailable malformed_snapshot s"
    by (simp add: unavailable_def malformed_snapshot_def isNaN_def)
  from unavailable_indicator_skipped [OF a b] show ?thesis by blast
qed


section \<open>The refresh cycle\<close>


lemma trend_neutral_push [simp]: "trend_neutral (push st e x) = trend_neutral st"
  by (simp add: trend_neutral_def)





lemma calculateAllProbabilities_trendMultipliers [simp]:
  "trendMultipliers (calculateAllProbabilities st) = trendMultipliers st"
proof -
  have "trendMultipliers
     (foldl (\<lambda>s event.
              s\<lparr>currentProbabilities :=
                  (currentProbabilities s)(event \<mapsto> probabilityOf event (updateFactors s event))\<rparr>)
            s0 es) = trendMultipliers s0" for s0 es
    by (induction es arbitrary: s0) simp_all
  then show ?thesis by (simp add: calculateAllProbabilities_def)
qed















lemma trendAnalyzer_steps [simp]:
  "trendAnalyzer (calculateRecessionFactors st ind) = trendAnalyzer st"
  "trendAnalyzer (calculateDepressionFactors st ind) = trendAnalyzer st"
  "trendAnalyzer (calculateReserveFactors st ind) = trendAnalyzer st"
  "trendAnalyzer (calculateDefaultFactors st ind) = trendAnalyzer st"
  "trendAnalyzer (calculateDevaluationFactors st ind) = trendAnalyzer st"
  by (simp_all add: calculateRecessionFactors_def calculateDepressionFactors_def
      calculateReserveFactors_def calculateDefaultFactors_def calculateDevaluationFactors_def
      Let_def split: option.split sum.split)

lemma trendAnalyzer_evaluateThresholds [simp]:
  "trendAnalyzer (evaluateThresholds st ind) = trendAnalyzer st"
  by (simp add: evaluateThresholds_def Let_def)

lemma calculateAllProbabilities_analyzer [simp]:
  "trendAnalyzer (calculateAllProbabilities st) = trendAnalyzer st"
  "useTrendAnalysis (calculateAllProbabilities st) = useTrendAnalysis st"
proof -
  have a: "trendAnalyzer
     (foldl (\<lambda>s event.
              s\<lparr>currentProbabilities :=
                  (currentProbabilities s)(event \<mapsto> probabilityOf event (updateFactors s event))\<rparr>)
            s0 es) = trendAnalyzer s0" for s0 es
    by (induction es arbitrary: s0) simp_all
  have b: "useTrendAnalysis
     (foldl (\<lambda>s event.
              s\<lparr>currentProbabilities :=
                  (currentProbabilities s)(event \<mapsto> probabilityOf event (updateFactors s event))\<rparr>)
            s0 es) = useTrendAnalysis s0" for s0 es
    by (induction es arbitrary: s0) simp_all
  show "trendAnalyzer (calculateAllProbabilities st) = trendAnalyzer st"
    by (simp add: calculateAllProbabilities_def a)
  show "useTrendAnalysis (calculateAllProbabilities st) = useTrendAnalysis st"
    by (simp add: calculateAllProbabilities_def b)
qed




section \<open>Trend direction\<close>

lemma sum_index: "(\<Sum>i\<leftarrow>[0..<n]. (of_nat i :: rat)) = of_nat n * (of_nat n - 1) / 2"
  by (induction n) (simp_all add: field_simps)

lemma sum_index_squares:
  "(\<Sum>i\<leftarrow>[0..<n]. (of_nat i :: rat) * of_nat i)
     = (of_nat n - 1) * of_nat n * (2 * of_nat n - 1) / 6"
  by (induction n) (simp_all add: field_simps)

lemma regression_denominator:
  "of_nat n * (\<Sum>i\<leftarrow>[0..<n]. (of_nat i :: rat) * of_nat i)
     - (\<Sum>i\<leftarrow>[0..<n]. of_nat i) * (\<Sum>i\<leftarrow>[0..<n]. of_nat i)
   = of_nat n * of_nat n * (of_nat n - 1) * (of_nat n + 1) / 12"
  by (simp add: sum_index sum_index_squares field_simps)

lemma regression_denominator_positive:
  assumes "2 \<le> n"
  shows "0 < of_nat n * (\<Sum>i\<leftarrow>[0..<n]. (of_nat i :: rat) * of_nat i)
     - (\<Sum>i\<leftarrow>[0..<n]. of_nat i) * (\<Sum>i\<leftarrow>[0..<n]. of_nat i)"
proof -
  from assms have "1 < n" by simp
  then have "(of_nat 1 :: rat) < of_nat n" by (simp only: of_nat_less_iff)
  then have "(1::rat) < of_nat n" by simp
  then have "0 < (of_nat n :: rat) * of_nat n * (of_nat n - 1) * (of_nat n + 1) / 12"
    by simp
  then show ?thesis by (simp only: regression_denominator)
qed

lemma deviations_product:
  "(\<Sum>i\<leftarrow>xs. (f i - a) * (g i - b))
     = (\<Sum>i\<leftarrow>xs. f i * g i) - a * (\<Sum>i\<leftarrow>xs. g i) - b * (\<Sum>i\<leftarrow>xs. f i)
       + of_nat (length xs) * a * (b :: rat)"
  by (induction xs) (simp_all add: algebra_simps)


lemma finite_value:
  "finite_series data \<Longrightarrow> j < length data \<Longrightarrow>
   obs_value (data ! j) = Fin (fin_value (obs_value (data ! j)))"
  by (auto simp add: finite_series_def list_all_length isFinite_def fin_value_def
      split: number.splits)

lemma oldest_first_nth:
  "i < length data \<Longrightarrow>
   oldest_first data ! i = fin_value (obs_value (data ! (length data - 1 - i)))"
  by (simp add: oldest_first_def rev_nth)

lemma length_oldest_first [simp]: "length (oldest_first data) = length data"
  by (simp add: oldest_first_def)

lemma regression_loop:
  assumes "finite_series data" and "k \<le> length data"
  shows "foldl (\<lambda>(sumX, sumY, sumXY, sumX2) i.
                  let x = Fin (of_nat i);
                      y = obs_value (data ! (length data - 1 - i))
                  in (sumX + x, sumY + y, sumXY + x * y, sumX2 + x * x))
               (Fin 0, Fin 0, Fin 0, Fin 0) [0..<k]
         = (Fin (\<Sum>i\<leftarrow>[0..<k]. of_nat i),
            Fin (\<Sum>i\<leftarrow>[0..<k]. oldest_first data ! i),
            Fin (\<Sum>i\<leftarrow>[0..<k]. of_nat i * (oldest_first data ! i)),
            Fin (\<Sum>i\<leftarrow>[0..<k]. of_nat i * of_nat i))"
  using assms(2)
proof (induction k)
  case 0
  then show ?case by simp
next
  case (Suc k)
  then have k: "k < length data" by simp
  then have j: "length data - Suc k < length data" by simp
  have y: "obs_value (data ! (length data - Suc k)) = Fin (oldest_first data ! k)"
    using finite_value [OF assms(1) j] by (simp add: oldest_first_nth [OF k])
  from Suc.IH k show ?case
    by (simp add: y Let_def)
qed

lemma regression_sums_finite:
  assumes "finite_series data"
  shows "regression_sums data
         = (Fin (\<Sum>i\<leftarrow>[0..<length data]. of_nat i),
            Fin (sum_list (oldest_first data)),
            Fin (\<Sum>i\<leftarrow>[0..<length data]. of_nat i * (oldest_first data ! i)),
            Fin (\<Sum>i\<leftarrow>[0..<length data]. of_nat i * of_nat i))"
proof -
  have "map ((!) (oldest_first data)) [0..<length data] = oldest_first data"
    using map_nth [of "oldest_first data"] by simp
  then have "(\<Sum>i\<leftarrow>[0..<length data]. oldest_first data ! i) = sum_list (oldest_first data)"
    by simp
  then show ?thesis
    using regression_loop [OF assms, of "length data"]
    by (simp add: regression_sums_def Let_def)
qed

lemma ols_slope_computational:
  assumes "2 \<le> length ys"
  shows "ols_slope ys
         = (of_nat (length ys) * (\<Sum>i\<leftarrow>[0..<length ys]. of_nat i * (ys ! i))
              - (\<Sum>i\<leftarrow>[0..<length ys]. of_nat i) * sum_list ys)
           / (of_nat (length ys) * (\<Sum>i\<leftarrow>[0..<length ys]. of_nat i * of_nat i)
              - (\<Sum>i\<leftarrow>[0..<length ys]. of_nat i) * (\<Sum>i\<leftarrow>[0..<length ys]. of_nat i))"
proof -
  define n :: rat where "n = of_nat (length ys)"
  define sx :: rat where "sx = (\<Sum>i\<leftarrow>[0..<length ys]. of_nat i)"
  define sy where "sy = sum_list ys"
  define sxy :: rat where "sxy = (\<Sum>i\<leftarrow>[0..<length ys]. of_nat i * (ys ! i))"
  define sxx :: rat where "sxx = (\<Sum>i\<leftarrow>[0..<length ys]. of_nat i * of_nat i)"
  have n0: "n \<noteq> 0" using assms by (auto simp add: n_def)
  have sy': "(\<Sum>i\<leftarrow>[0..<length ys]. ys ! i) = sy"
    using map_nth [of ys] by (simp add: sy_def)
  have num0: "(\<Sum>i\<leftarrow>[0..<length ys]. (of_nat i - sx / n) * (ys ! i - sy / n))
             = sxy - (sx / n) * sy - (sy / n) * sx + n * (sx / n) * (sy / n)"
    unfolding deviations_product sy' by (simp add: sx_def sxy_def n_def)
  have num: "(\<Sum>i\<leftarrow>[0..<length ys]. (of_nat i - sx / n) * (ys ! i - sy / n))
             = sxy - sx * sy / n"
    unfolding num0 using n0 by (simp add: field_simps)
  have den0: "(\<Sum>i\<leftarrow>[0..<length ys]. (of_nat i - sx / n) * (of_nat i - sx / n))
             = sxx - (sx / n) * sx - (sx / n) * sx + n * (sx / n) * (sx / n)"
    unfolding deviations_product by (simp add: sx_def sxx_def n_def)
  have den: "(\<Sum>i\<leftarrow>[0..<length ys]. (of_nat i - sx / n) * (of_nat i - sx / n))
             = sxx - sx * sx / n"
    unfolding den0 using n0 by (simp add: field_simps)
  have "ols_slope ys = (sxy - sx * sy / n) / (sxx - sx * sx / n)"
    by (simp add: ols_slope_def Let_def time_mean_def mean_def num den
        sx_def [symmetric] sy_def [symmetric] n_def [symmetric])
  also have "\<dots> = (n * sxy - sx * sy) / (n * sxx - sx * sx)"
  proof -
    have a: "n * sxy - sx * sy = n * (sxy - sx * sy / n)" using n0 by (simp add: field_simps)
    have b: "n * sxx - sx * sx = n * (sxx - sx * sx / n)" using n0 by (simp add: field_simps)
    show ?thesis unfolding a b using n0 by simp
  qed
  finally show ?thesis
    by (simp add: n_def sx_def sy_def sxy_def sxx_def)
qed

lemma normalizedSlope_finite:
  assumes "finite_series data" and "2 \<le> length data"
  shows "normalizedSlope data
         = (Fin (ols_slope (oldest_first data)) / Fin (mean (oldest_first data))) * Fin 100"
proof -
  let ?n = "length data"
  have d: "of_nat ?n * (\<Sum>i\<leftarrow>[0..<?n]. (of_nat i :: rat) * of_nat i)
             - (\<Sum>i\<leftarrow>[0..<?n]. of_nat i) * (\<Sum>i\<leftarrow>[0..<?n]. of_nat i) \<noteq> 0"
    using regression_denominator_positive [OF assms(2)] by simp
  have n0: "(of_nat ?n :: rat) \<noteq> 0" using assms(2) by auto
  have o: "2 \<le> length (oldest_first data)" using assms(2) by simp
  show ?thesis
    using d n0
    by (simp add: normalizedSlope_def regression_sums_finite [OF assms(1)] Let_def
        minus_number_def ols_slope_computational [OF o] mean_def)
qed


text \<open>
  C4. The direction follows the sign of the slope divided by the mean, so a negative
  mean turns it round: the values \<open>-3, -2, -1\<close> (oldest first) rise with slope 1, the
  normalized slope is \<open>-50\<close>, and the branch for falling values is taken, giving
  \<open>+1\<close> for an inverted indicator where rising values should give \<open>-1\<close>. On the flat
  series of zeros the normalized slope \<open>0 / 0\<close> is \<open>NaN\<close>, no comparison holds and
  nothing is thrown, so the same branch answers \<open>-1\<close> instead of 0.
\<close>

theorem trend_direction_wrong_branch:
  "oldest_first (series_of [- 1, - 2, - 3]) = [- 3, - 2, - 1] \<and>
   ols_slope (oldest_first (series_of [- 1, - 2, - 3])) = 1 \<and>
   normalizedSlope (series_of [- 1, - 2, - 3]) = Fin (- 50) \<and>
   calculateTrendDirection [''X'' \<mapsto> series_of [- 1, - 2, - 3]] ''X'' True = 1 \<and>
   calculateTrendDirection [''X'' \<mapsto> series_of [- 1, - 2, - 3]] ''X'' False = - 1 \<and>
   normalizedSlope (series_of [0, 0, 0]) = NaN \<and>
   calculateTrendDirection [''X'' \<mapsto> series_of [0, 0, 0]] ''X'' False = - 1"
proof -
  have a: "oldest_first (series_of [- 1, - 2, - 3]) = [- 3, - 2, - 1]" by code_simp
  have b: "ols_slope (oldest_first (series_of [- 1, - 2, - 3])) = 1" by code_simp
  have c: "normalizedSlope (series_of [- 1, - 2, - 3]) = Fin (- 50)" by code_simp
  have d: "calculateTrendDirection [''X'' \<mapsto> series_of [- 1, - 2, - 3]] ''X'' True = 1"
    by code_simp
  have e: "calculateTrendDirection [''X'' \<mapsto> series_of [- 1, - 2, - 3]] ''X'' False = - 1"
    by code_simp
  have f: "normalizedSlope (series_of [0, 0, 0]) = NaN" by code_simp
  have g: "calculateTrendDirection [''X'' \<mapsto> series_of [0, 0, 0]] ''X'' False = - 1"
    by code_simp
  from a b c d e f g show ?thesis by blast
qed

end
